theory Spec2Isabelle
  imports Complex_Main "HOL-Library.AList"
begin

section \<open>JavaScript numbers\<close>

text \<open>
  The ledger functions of \<^verbatim>\<open>utils.ts\<close> compute on JavaScript numbers, which are IEEE-754
  doubles. A number is modelled as a real or one of the three special values, and every
  arithmetic operation rounds its exact result to the nearest double, ties to the even
  significand, as the hardware does. So a division by zero is \<open>NaN\<close> or an infinity and
  not the \<open>0\<close> of HOL's total division, and a sum depends on the order of its additions.
  Two things are left out: the exponent is unbounded (no overflow to an infinity beyond
  \<open>1.8e308\<close>, no gradual underflow below \<open>2.2e-308\<close>), and zero has no sign (a zero
  divisor counts as \<open>+0\<close>).
\<close>

text \<open>The nearest integer, a tie going to the even one.\<close>

definition round_even :: "real \<Rightarrow> int" where
  "round_even y =
     (let f = \<lfloor>y\<rfloor>
      in if y - of_int f < 1 / 2 then f
         else if 1 / 2 < y - of_int f then f + 1
         else if even f then f else f + 1)"

text \<open>
  The nearest double: with \<open>2^e \<le> |x| < 2^(e+1)\<close>, the doubles around \<open>x\<close> are the
  multiples of \<open>2^(e-52)\<close>, which leaves a significand of 53 bits.
\<close>

definition fl :: "real \<Rightarrow> real" where
  "fl x =
     (if x = 0 then 0
      else (let u = 2 powi (\<lfloor>log 2 \<bar>x\<bar>\<rfloor> - 52)
            in of_int (round_even (x / u)) * u))"

datatype jsnum = Fin real | PInf | NInf | NaN

fun jneg :: "jsnum \<Rightarrow> jsnum" where
  "jneg (Fin a) = Fin (- a)"
| "jneg PInf = NInf"
| "jneg NInf = PInf"
| "jneg NaN = NaN"

fun jadd :: "jsnum \<Rightarrow> jsnum \<Rightarrow> jsnum" where
  "jadd (Fin a) (Fin b) = Fin (fl (a + b))"
| "jadd NaN _ = NaN"
| "jadd _ NaN = NaN"
| "jadd PInf NInf = NaN"
| "jadd NInf PInf = NaN"
| "jadd PInf _ = PInf"
| "jadd NInf _ = NInf"
| "jadd _ PInf = PInf"
| "jadd _ NInf = NInf"

definition jsub :: "jsnum \<Rightarrow> jsnum \<Rightarrow> jsnum" where
  "jsub a b = jadd a (jneg b)"

fun jmul :: "jsnum \<Rightarrow> jsnum \<Rightarrow> jsnum" where
  "jmul (Fin a) (Fin b) = Fin (fl (a * b))"
| "jmul NaN _ = NaN"
| "jmul _ NaN = NaN"
| "jmul PInf (Fin b) = (if b = 0 then NaN else if 0 < b then PInf else NInf)"
| "jmul NInf (Fin b) = (if b = 0 then NaN else if 0 < b then NInf else PInf)"
| "jmul (Fin a) PInf = (if a = 0 then NaN else if 0 < a then PInf else NInf)"
| "jmul (Fin a) NInf = (if a = 0 then NaN else if 0 < a then NInf else PInf)"
| "jmul PInf PInf = PInf"
| "jmul PInf NInf = NInf"
| "jmul NInf PInf = NInf"
| "jmul NInf NInf = PInf"

fun jdiv :: "jsnum \<Rightarrow> jsnum \<Rightarrow> jsnum" where
  "jdiv (Fin a) (Fin b) =
     (if b = 0 then (if a = 0 then NaN else if 0 < a then PInf else NInf)
      else Fin (fl (a / b)))"
| "jdiv NaN _ = NaN"
| "jdiv _ NaN = NaN"
| "jdiv (Fin a) PInf = Fin 0"
| "jdiv (Fin a) NInf = Fin 0"
| "jdiv PInf (Fin b) = (if 0 \<le> b then PInf else NInf)"
| "jdiv NInf (Fin b) = (if 0 \<le> b then NInf else PInf)"
| "jdiv PInf PInf = NaN"
| "jdiv PInf NInf = NaN"
| "jdiv NInf PInf = NaN"
| "jdiv NInf NInf = NaN"

text \<open>\<open>a < b\<close>; every comparison with \<open>NaN\<close> is false.\<close>

fun jlt :: "jsnum \<Rightarrow> jsnum \<Rightarrow> bool" where
  "jlt (Fin a) (Fin b) = (a < b)"
| "jlt NaN _ = False"
| "jlt _ NaN = False"
| "jlt NInf NInf = False"
| "jlt NInf _ = True"
| "jlt PInf _ = False"
| "jlt (Fin a) PInf = True"
| "jlt (Fin a) NInf = False"

definition jgt :: "jsnum \<Rightarrow> jsnum \<Rightarrow> bool" where
  "jgt a b = jlt b a"

text \<open>\<open>a !== b\<close> on numbers: \<open>NaN\<close> differs from everything, itself included.\<close>

definition jneq :: "jsnum \<Rightarrow> jsnum \<Rightarrow> bool" where
  "jneq a b = (a = NaN \<or> b = NaN \<or> a \<noteq> b)"

text \<open>
  A number read from the input (a field of a transaction, an entry of the price or target
  table) is only ever read through \<open>x || d\<close>, which yields \<open>d\<close> when \<open>x\<close> is
  \<open>undefined\<close>, \<open>null\<close>, \<open>NaN\<close> or \<open>0\<close>. Such an input is an optional real, the double
  that is stored: \<open>None\<close> stands for absent, \<open>null\<close> and \<open>NaN\<close> alike. Infinite inputs
  are outside the model.
\<close>

definition num_or :: "real option \<Rightarrow> real \<Rightarrow> real" where
  "num_or x d = (case x of None \<Rightarrow> d | Some v \<Rightarrow> if v = 0 then d else v)"

text \<open>The literal \<^verbatim>\<open>0.000001\<close>: the double nearest to one millionth.\<close>

definition epsilon :: real where
  "epsilon = fl (1 / 1000000)"

text \<open>\<open>s || d\<close> on an optional string: the empty string is falsy.\<close>

definition str_or :: "string option \<Rightarrow> string \<Rightarrow> string" where
  "str_or x d = (case x of None \<Rightarrow> d | Some s \<Rightarrow> if s = [] then d else s)"

section \<open>Objects used as dictionaries\<close>

text \<open>
  A \<^verbatim>\<open>Record<string, T>\<close> that the program fills key by key is an association list in
  insertion order; \<open>AList.update\<close> overwrites in place or appends. \<^verbatim>\<open>Object.values\<close>
  and \<^verbatim>\<open>Object.keys\<close> enumerate the keys that are canonical array indices first, in
  ascending numeric order, then the other keys in insertion order. A key that names a
  property every object inherits (\<^verbatim>\<open>constructor\<close>, \<^verbatim>\<open>toString\<close>, ...) is outside the
  model: the table holds what the program stored and nothing else.
\<close>

definition is_digit :: "char \<Rightarrow> bool" where
  "is_digit c = (48 \<le> (of_char c :: nat) \<and> (of_char c :: nat) \<le> 57)"

fun digits_value :: "nat \<Rightarrow> string \<Rightarrow> nat" where
  "digits_value acc [] = acc"
| "digits_value acc (c # cs) = digits_value (acc * 10 + (of_char c - 48)) cs"

definition is_array_index :: "string \<Rightarrow> bool" where
  "is_array_index s =
     (s \<noteq> [] \<and> list_all is_digit s \<and> (s = ''0'' \<or> hd s \<noteq> CHR ''0'')
      \<and> digits_value 0 s \<le> 4294967294)"

definition object_entries :: "(string \<times> 'a) list \<Rightarrow> (string \<times> 'a) list" where
  "object_entries al =
     sort_key (\<lambda>kv. digits_value 0 (fst kv)) (filter (\<lambda>kv. is_array_index (fst kv)) al)
     @ filter (\<lambda>kv. \<not> is_array_index (fst kv)) al"

definition object_values :: "(string \<times> 'a) list \<Rightarrow> 'a list" where
  "object_values al = map snd (object_entries al)"

section \<open>Data model (\<^verbatim>\<open>types.ts\<close>)\<close>

datatype TransactionType = BUY | SELL | DEPOSIT | WITHDRAW | DIVIDEND | SPLIT

datatype AssetClass = STOCK | CRYPTO | FUND | ETF | BOND | REAL_ESTATE | GOLD | CASH

text \<open>Optional fields (\<^verbatim>\<open>symbol?: string\<close>, \<^verbatim>\<open>shares?: number\<close>, ...) are options.\<close>

record Transaction =
  tx_id :: string
  tx_date :: string
  tx_type :: TransactionType
  tx_symbol :: "string option"
  tx_name :: "string option"
  tx_assetClass :: "AssetClass option"
  tx_sector :: "string option"
  tx_shares :: "real option"
  tx_price :: "real option"
  tx_fee :: "real option"
  tx_exchangeRate :: "real option"
  tx_notes :: "string option"

record Holding =
  h_symbol :: string
  h_name :: string
  h_assetClass :: AssetClass
  h_sector :: string
  h_shares :: jsnum
  h_avgCost :: jsnum
  h_totalCost :: jsnum
  h_currentPrice :: jsnum
  h_marketValue :: jsnum
  h_unrealizedPL :: jsnum
  h_unrealizedPLPercent :: jsnum
  h_realizedPL :: jsnum
  h_totalDividends :: jsnum
  h_totalReturn :: jsnum
  h_targetAllocation :: jsnum

record ChartDataPoint =
  p_date :: string
  p_invested :: jsnum
  p_value :: jsnum

section \<open>Sorting by date\<close>

text \<open>
  \<^verbatim>\<open>[...transactions].sort((a, b) => new Date(a.date).getTime() - new Date(b.date).getTime())\<close>.
  The built-in \<^verbatim>\<open>new Date(s).getTime()\<close> is the parameter \<open>getTime\<close>; every date
  of the ledger is taken to parse, as the data model has it. \<^verbatim>\<open>Array.prototype.sort\<close>
  is stable, and so is \<open>sort_key\<close>.
\<close>

definition sortedTx :: "(string \<Rightarrow> int) \<Rightarrow> Transaction list \<Rightarrow> Transaction list" where
  "sortedTx getTime transactions = sort_key (\<lambda>t. getTime (tx_date t)) transactions"

section \<open>\<^verbatim>\<open>calculateHoldings\<close>\<close>

text \<open>The object literal stored in \<^verbatim>\<open>holdingsMap\<close> the first time a symbol is seen.\<close>

definition new_holding :: "(string \<rightharpoonup> real) \<Rightarrow> Transaction \<Rightarrow> string \<Rightarrow> Holding" where
  "new_holding prices tx symb =
     \<lparr> h_symbol = symb,
       h_name = str_or (tx_name tx) symb,
       h_assetClass = (case tx_assetClass tx of None \<Rightarrow> STOCK | Some a \<Rightarrow> a),
       h_sector = str_or (tx_sector tx) ''General'',
       h_shares = Fin 0,
       h_avgCost = Fin 0,
       h_totalCost = Fin 0,
       h_currentPrice = Fin (num_or (prices symb) 0),
       h_marketValue = Fin 0,
       h_unrealizedPL = Fin 0,
       h_unrealizedPLPercent = Fin 0,
       h_realizedPL = Fin 0,
       h_totalDividends = Fin 0,
       h_totalReturn = Fin 0,
       h_targetAllocation = Fin 0 \<rparr>"

text \<open>The branch on \<^verbatim>\<open>tx.type\<close>, applied to the symbol's accumulator \<open>h\<close>.\<close>

definition apply_tx :: "Transaction \<Rightarrow> Holding \<Rightarrow> Holding" where
  "apply_tx tx h =
     (let price = Fin (num_or (tx_price tx) 0);
          shares = Fin (num_or (tx_shares tx) 0);
          fee = Fin (num_or (tx_fee tx) 0)
      in case tx_type tx of
           BUY \<Rightarrow>
             (let cost = jadd (jmul price shares) fee;
                  totalCost = jadd (h_totalCost h) cost;
                  shares' = jadd (h_shares h) shares
              in h\<lparr> h_totalCost := totalCost, h_shares := shares',
                    h_avgCost := jdiv totalCost shares' \<rparr>)
         | SELL \<Rightarrow>
             (let proceeds = jsub (jmul price shares) fee;
                  costBasis = jmul (h_avgCost h) shares;
                  realizedPL = jadd (h_realizedPL h) (jsub proceeds costBasis);
                  shares' = jsub (h_shares h) shares;
                  totalCost = jsub (h_totalCost h) costBasis
              in if jlt shares' (Fin epsilon)
                 then h\<lparr> h_realizedPL := realizedPL, h_shares := Fin 0, h_totalCost := Fin 0 \<rparr>
                 else h\<lparr> h_realizedPL := realizedPL, h_shares := shares',
                         h_totalCost := totalCost \<rparr>)
         | DIVIDEND \<Rightarrow>
             h\<lparr> h_totalDividends := jadd (h_totalDividends h) (jsub price fee) \<rparr>
         | SPLIT \<Rightarrow>
             (let ratio = shares
              in if jgt ratio (Fin 0)
                 then h\<lparr> h_shares := jmul (h_shares h) ratio,
                         h_avgCost := jdiv (h_avgCost h) ratio \<rparr>
                 else h)
         | _ \<Rightarrow> h)"

text \<open>
  The accumulator the body of the loop works on: the stored one, or the fresh one when
  the symbol is seen for the first time.
\<close>

definition accumulator ::
  "(string \<rightharpoonup> real) \<Rightarrow> Transaction \<Rightarrow> string \<Rightarrow> (string \<times> Holding) list \<Rightarrow> Holding" where
  "accumulator prices tx symb holdingsMap =
     (case map_of holdingsMap symb of None \<Rightarrow> new_holding prices tx symb | Some h \<Rightarrow> h)"

text \<open>One iteration of \<^verbatim>\<open>sortedTx.forEach\<close>; \<^verbatim>\<open>if (!tx.symbol) return\<close> comes first.\<close>

definition process_tx ::
  "(string \<rightharpoonup> real) \<Rightarrow> Transaction \<Rightarrow> (string \<times> Holding) list \<Rightarrow> (string \<times> Holding) list" where
  "process_tx prices tx holdingsMap =
     (case tx_symbol tx of
        None \<Rightarrow> holdingsMap
      | Some symb \<Rightarrow>
          if symb = [] then holdingsMap
          else AList.update symb (apply_tx tx (accumulator prices tx symb holdingsMap)) holdingsMap)"

text \<open>The \<^verbatim>\<open>map\<close> over \<^verbatim>\<open>Object.values(holdingsMap)\<close>.\<close>

definition finalize :: "(string \<rightharpoonup> real) \<Rightarrow> (string \<rightharpoonup> real) \<Rightarrow> Holding \<Rightarrow> Holding" where
  "finalize prices targets h =
     (let currentPrice = (if num_or (prices (h_symbol h)) 0 \<noteq> 0
                          then Fin (num_or (prices (h_symbol h)) 0) else h_currentPrice h);
          marketValue = jmul (h_shares h) currentPrice;
          unrealizedPL = jsub marketValue (h_totalCost h);
          unrealizedPLPercent =
            (if jgt (h_totalCost h) (Fin 0)
             then jmul (jdiv unrealizedPL (h_totalCost h)) (Fin 100) else Fin 0)
      in h\<lparr> h_currentPrice := currentPrice,
            h_marketValue := marketValue,
            h_unrealizedPL := unrealizedPL,
            h_unrealizedPLPercent := unrealizedPLPercent,
            h_totalReturn := jadd (jadd unrealizedPL (h_realizedPL h)) (h_totalDividends h),
            h_targetAllocation := Fin (num_or (targets (h_symbol h)) 0) \<rparr>)"

text \<open>The final \<^verbatim>\<open>filter\<close>.\<close>

definition keep_holding :: "Holding \<Rightarrow> bool" where
  "keep_holding h =
     (jgt (h_shares h) (Fin 0) \<or> jneq (h_realizedPL h) (Fin 0)
      \<or> jneq (h_totalDividends h) (Fin 0))"

definition replay_holdings ::
  "(string \<rightharpoonup> real) \<Rightarrow> Transaction list \<Rightarrow> (string \<times> Holding) list" where
  "replay_holdings prices txs = fold (process_tx prices) txs []"

definition calculateHoldings ::
  "(string \<Rightarrow> int) \<Rightarrow> Transaction list \<Rightarrow> (string \<rightharpoonup> real) \<Rightarrow> (string \<rightharpoonup> real) \<Rightarrow> Holding list" where
  "calculateHoldings getTime transactions prices targets =
     filter keep_holding
       (map (finalize prices targets)
          (object_values (replay_holdings prices (sortedTx getTime transactions))))"

section \<open>\<^verbatim>\<open>calculatePortfolioHistory\<close>\<close>

record Position =
  pos_shares :: jsnum
  pos_lastPrice :: jsnum

text \<open>The variables of the replay: \<^verbatim>\<open>invested\<close>, \<^verbatim>\<open>cash\<close>, \<^verbatim>\<open>holdings\<close>, \<^verbatim>\<open>points\<close>.\<close>

record HistoryState =
  hs_invested :: jsnum
  hs_cash :: jsnum
  hs_holdings :: "(string \<times> Position) list"
  hs_points :: "ChartDataPoint list"

text \<open>\<^verbatim>\<open>currentPrices[symbol] || h.lastPrice\<close>.\<close>

definition price_or :: "real option \<Rightarrow> jsnum \<Rightarrow> jsnum" where
  "price_or x d = (case x of None \<Rightarrow> d | Some v \<Rightarrow> if v = 0 then d else Fin v)"

text \<open>The block under \<^verbatim>\<open>if (tx.symbol)\<close>: it returns the new cash and positions.\<close>

definition trade_step ::
  "Transaction \<Rightarrow> jsnum \<Rightarrow> (string \<times> Position) list \<Rightarrow> jsnum \<times> (string \<times> Position) list" where
  "trade_step tx cash holdings =
     (case tx_symbol tx of
        None \<Rightarrow> (cash, holdings)
      | Some symb \<Rightarrow>
          if symb = [] then (cash, holdings)
          else
            (let amount = Fin (num_or (tx_price tx) 0);
                 shares = Fin (num_or (tx_shares tx) 0);
                 fee = Fin (num_or (tx_fee tx) 0);
                 h0 = (case map_of holdings symb of
                         None \<Rightarrow> \<lparr> pos_shares = Fin 0, pos_lastPrice = Fin 0 \<rparr>
                       | Some h \<Rightarrow> h);
                 h = (if jgt amount (Fin 0) \<and> (tx_type tx = BUY \<or> tx_type tx = SELL)
                      then h0\<lparr> pos_lastPrice := amount \<rparr> else h0);
                 tradeTotal = jmul amount shares
             in case tx_type tx of
                  BUY \<Rightarrow>
                    (jsub cash (jadd tradeTotal fee),
                     AList.update symb (h\<lparr> pos_shares := jadd (pos_shares h) shares \<rparr>) holdings)
                | SELL \<Rightarrow>
                    (jadd cash (jsub tradeTotal fee),
                     AList.update symb (h\<lparr> pos_shares := jsub (pos_shares h) shares \<rparr>) holdings)
                | SPLIT \<Rightarrow>
                    (let ratio = Fin (if num_or (tx_shares tx) 0 = 0 then 1
                                      else num_or (tx_shares tx) 0);
                         h' = h\<lparr> pos_shares := jmul (pos_shares h) ratio \<rparr>
                     in (cash,
                         AList.update symb
                           (if jgt (pos_lastPrice h') (Fin 0)
                            then h'\<lparr> pos_lastPrice := jdiv (pos_lastPrice h') ratio \<rparr>
                            else h')
                           holdings))
                | _ \<Rightarrow> (cash, AList.update symb h holdings)))"

text \<open>The sum over \<^verbatim>\<open>Object.values(holdings)\<close> after each transaction.\<close>

definition stockValue :: "(string \<times> Position) list \<Rightarrow> jsnum" where
  "stockValue holdings =
     fold (\<lambda>h acc. jadd acc (jmul (pos_shares h) (pos_lastPrice h))) (object_values holdings) (Fin 0)"

text \<open>One iteration of \<^verbatim>\<open>sortedTx.forEach\<close>.\<close>

definition history_step :: "Transaction \<Rightarrow> HistoryState \<Rightarrow> HistoryState" where
  "history_step tx st =
     (let invested1 = (if tx_type tx = DEPOSIT
                       then jadd (hs_invested st) (Fin (num_or (tx_price tx) 0))
                       else hs_invested st);
          invested = (if tx_type tx = WITHDRAW
                      then jsub invested1 (Fin (num_or (tx_price tx) 0))
                      else invested1);
          amount = num_or (tx_price tx) 0;
          cash1 = (if tx_type tx = DEPOSIT then jadd (hs_cash st) (Fin amount)
                   else if tx_type tx = WITHDRAW then jsub (hs_cash st) (Fin amount)
                   else if tx_type tx = DIVIDEND then jadd (hs_cash st) (Fin amount)
                   else hs_cash st);
          traded = trade_step tx cash1 (hs_holdings st);
          cash = fst traded;
          holdings = snd traded
      in \<lparr> hs_invested = invested,
           hs_cash = cash,
           hs_holdings = holdings,
           hs_points = hs_points st @
             [\<lparr> p_date = tx_date tx, p_invested = invested,
                p_value = jadd cash (stockValue holdings) \<rparr>] \<rparr>)"

definition history_init :: HistoryState where
  "history_init = \<lparr> hs_invested = Fin 0, hs_cash = Fin 0, hs_holdings = [], hs_points = [] \<rparr>"

text \<open>
  The sum over \<^verbatim>\<open>Object.keys(holdings)\<close> for the trailing point; each key is taken with
  the entry \<^verbatim>\<open>holdings[symbol]\<close> stored under it.
\<close>

definition currentStockValue :: "(string \<rightharpoonup> real) \<Rightarrow> (string \<times> Position) list \<Rightarrow> jsnum" where
  "currentStockValue currentPrices holdings =
     fold (\<lambda>kv acc. jadd acc (jmul (pos_shares (snd kv))
                                  (price_or (currentPrices (fst kv)) (pos_lastPrice (snd kv)))))
       (object_entries holdings) (Fin 0)"

definition calculatePortfolioHistory ::
  "(string \<Rightarrow> int) \<Rightarrow> Transaction list \<Rightarrow> (string \<rightharpoonup> real) \<Rightarrow> ChartDataPoint list" where
  "calculatePortfolioHistory getTime transactions currentPrices =
     (if length transactions = 0 then []
      else
        (let st = fold history_step (sortedTx getTime transactions) history_init
         in hs_points st @
              [\<lparr> p_date = ''Now'', p_invested = hs_invested st,
                 p_value = jadd (hs_cash st) (currentStockValue currentPrices (hs_holdings st)) \<rparr>]))"

section \<open>\<^verbatim>\<open>calculateFundingStats\<close>\<close>

record FundingStats =
  netFundingUSD :: jsnum
  netFundingLocal :: jsnum
  avgFxCost :: jsnum
  fundingTxs :: "Transaction list"

text \<open>The four running sums of the loop.\<close>

record FundingSums =
  fs_netFundingUSD :: jsnum
  fs_netFundingLocal :: jsnum
  fs_totalDepositsUSD :: jsnum
  fs_totalDepositsLocal :: jsnum

definition funding_step :: "Transaction \<Rightarrow> FundingSums \<Rightarrow> FundingSums" where
  "funding_step tx a =
     (let amount = Fin (num_or (tx_price tx) 0);
          rate = Fin (num_or (tx_exchangeRate tx) 1)
      in if tx_type tx = DEPOSIT
         then \<lparr> fs_netFundingUSD = jadd (fs_netFundingUSD a) amount,
                fs_netFundingLocal = jadd (fs_netFundingLocal a) (jmul amount rate),
                fs_totalDepositsUSD = jadd (fs_totalDepositsUSD a) amount,
                fs_totalDepositsLocal = jadd (fs_totalDepositsLocal a) (jmul amount rate) \<rparr>
         else a\<lparr> fs_netFundingUSD := jsub (fs_netFundingUSD a) amount,
                 fs_netFundingLocal := jsub (fs_netFundingLocal a) (jmul amount rate) \<rparr>)"

definition calculateFundingStats :: "Transaction list \<Rightarrow> FundingStats" where
  "calculateFundingStats transactions =
     (let txs = filter (\<lambda>t. tx_type t = DEPOSIT \<or> tx_type t = WITHDRAW) transactions;
          a = fold funding_step txs
                \<lparr> fs_netFundingUSD = Fin 0, fs_netFundingLocal = Fin 0,
                  fs_totalDepositsUSD = Fin 0, fs_totalDepositsLocal = Fin 0 \<rparr>
      in \<lparr> netFundingUSD = fs_netFundingUSD a,
           netFundingLocal = fs_netFundingLocal a,
           avgFxCost = (if jgt (fs_totalDepositsUSD a) (Fin 0)
                        then jdiv (fs_totalDepositsLocal a) (fs_totalDepositsUSD a) else Fin 0),
           fundingTxs = txs \<rparr>)"

section \<open>\<^verbatim>\<open>calculateMaxDrawdown\<close>\<close>

text \<open>The body of the \<^verbatim>\<open>for\<close> loop on the pair \<open>(peak, maxDD)\<close>.\<close>

definition drawdown_step :: "ChartDataPoint \<Rightarrow> jsnum \<times> jsnum \<Rightarrow> jsnum \<times> jsnum" where
  "drawdown_step point s =
     (let peak = (if jgt (p_value point) (fst s) then p_value point else fst s);
          maxDD = snd s
      in if jgt peak (Fin 0)
         then (let dd = jdiv (jsub peak (p_value point)) peak
               in (peak, if jgt dd maxDD then dd else maxDD))
         else (peak, maxDD))"

definition calculateMaxDrawdown :: "ChartDataPoint list \<Rightarrow> jsnum" where
  "calculateMaxDrawdown chartData = jmul (snd (fold drawdown_step chartData (NInf, Fin 0))) (Fin 100)"

section \<open>\<^verbatim>\<open>calculateMonthlyReturns\<close>\<close>

text \<open>
  The function works on \<^verbatim>\<open>Date\<close> objects. What it takes from the runtime are parameters
  here: \<open>now\<close>, the time \<^verbatim>\<open>new Date()\<close> returns; \<open>parse\<close>, the time of \<^verbatim>\<open>new Date(s)\<close>,
  which is \<open>None\<close> for a string that does not parse (an \<^verbatim>\<open>Invalid Date\<close>, whose time is
  \<open>NaN\<close>); and \<open>monthIndex\<close>, the calendar month a time falls in, in the host's local
  time, counted as \<^verbatim>\<open>getFullYear() * 12 + getMonth()\<close>. A \<^verbatim>\<open>Date\<close> that the function
  builds with \<^verbatim>\<open>new Date(year, month, 1)\<close> is the first instant of a local month and is
  represented by the index of that month: such dates are compared as their indices are,
  and a time \<open>t\<close> lies before the first instant of month \<open>m\<close> exactly when
  \<open>monthIndex t < m\<close>.
\<close>

record MonthState =
  ms_value :: jsnum
  ms_invested :: jsnum

record MonthlySnapshot =
  sn_yearMonth :: string
  sn_value :: jsnum
  sn_invested :: jsnum

record MonthlyReturnData =
  r_yearMonth :: string
  r_value :: jsnum
  r_pnl :: jsnum

definition getDate :: "int \<Rightarrow> (string \<Rightarrow> int option) \<Rightarrow> string \<Rightarrow> int option" where
  "getDate now parse dStr = (if dStr = ''Now'' then Some now else parse dStr)"

text \<open>
  \<^verbatim>\<open>new Date(year, month, 1)\<close> as a month index. The constructor reads a year from 0 to 99
  as 1900 plus that year; a month beyond 11 runs into the next year.
\<close>

definition first_of_month :: "int \<Rightarrow> int \<Rightarrow> int" where
  "first_of_month year month =
     (if 0 \<le> year \<and> year \<le> 99 then 1900 + year else year) * 12 + month"

text \<open>\<^verbatim>\<open>getFullYear()\<close> and \<^verbatim>\<open>getMonth()\<close> of the first instant of a month.\<close>

definition getFullYear :: "int \<Rightarrow> int" where
  "getFullYear m = m div 12"

definition getMonth :: "int \<Rightarrow> int" where
  "getMonth m = m mod 12"

text \<open>Decimal digits of a number, for the template string of \<^verbatim>\<open>getYearMonth\<close>.\<close>

definition digit_char :: "nat \<Rightarrow> char" where
  "digit_char n = ''0123456789'' ! n"

function show_nat :: "nat \<Rightarrow> string" where
  "show_nat n =
     (if n < 10 then [digit_char n] else show_nat (n div 10) @ [digit_char (n mod 10)])"
  by pat_completeness auto
termination
  by (relation "measure id") auto

declare show_nat.simps [simp del]

definition show_int :: "int \<Rightarrow> string" where
  "show_int i = (if i < 0 then CHR ''-'' # show_nat (nat (- i)) else show_nat (nat i))"

definition padStart2 :: "string \<Rightarrow> string" where
  "padStart2 s = replicate (2 - length s) CHR ''0'' @ s"

definition getYearMonth :: "int \<Rightarrow> string" where
  "getYearMonth m =
     show_int (getFullYear m) @ ''-'' @ padStart2 (show_nat (nat (getMonth m) + 1))"

text \<open>
  The inner \<^verbatim>\<open>while (dataIdx < sorted.length)\<close>: \<open>ps\<close> is the part of \<^verbatim>\<open>sorted\<close>
  from \<^verbatim>\<open>dataIdx\<close> on, each point with the time of its date; the result is
  \<^verbatim>\<open>monthState\<close> and the part left.
\<close>

fun take_month ::
  "(int \<Rightarrow> int) \<Rightarrow> int \<Rightarrow> (int \<times> ChartDataPoint) list \<Rightarrow> MonthState
   \<Rightarrow> MonthState \<times> (int \<times> ChartDataPoint) list" where
  "take_month monthIndex nextMonth [] monthState = (monthState, [])"
| "take_month monthIndex nextMonth (p # ps) monthState =
     (if monthIndex (fst p) < nextMonth
      then take_month monthIndex nextMonth ps
             \<lparr> ms_value = p_value (snd p), ms_invested = p_invested (snd p) \<rparr>
      else (monthState, p # ps))"

text \<open>
  The outer \<^verbatim>\<open>while (current <= endMonth)\<close>; \<^verbatim>\<open>current.setMonth(current.getMonth() + 1)\<close>
  moves to the next month.
\<close>

function month_loop ::
  "(int \<Rightarrow> int) \<Rightarrow> int \<Rightarrow> int \<Rightarrow> (int \<times> ChartDataPoint) list \<Rightarrow> MonthState
   \<Rightarrow> MonthlySnapshot list" where
  "month_loop monthIndex current endMonth ps lastState =
     (if current \<le> endMonth
      then (let nextMonth = first_of_month (getFullYear current) (getMonth current + 1);
                currentYearMonth = getYearMonth current;
                r = take_month monthIndex nextMonth ps lastState;
                monthState = fst r
            in \<lparr> sn_yearMonth = currentYearMonth, sn_value = ms_value monthState,
                 sn_invested = ms_invested monthState \<rparr>
               # month_loop monthIndex (current + 1) endMonth (snd r) monthState)
      else [])"
  by pat_completeness auto
termination
  by (relation "measure (\<lambda>(f, current, endMonth, ps, st). nat (endMonth + 1 - current))") auto

declare month_loop.simps [simp del]

text \<open>The body of \<^verbatim>\<open>for (let i = 0; i < monthlySnapshots.length; i++)\<close>: what it pushes.\<close>

definition month_return :: "MonthlySnapshot list \<Rightarrow> nat \<Rightarrow> MonthlyReturnData list" where
  "month_return monthlySnapshots i =
     (let e = monthlySnapshots ! i;
          startVal = (if 0 < i then sn_value (monthlySnapshots ! (i - 1)) else Fin 0);
          startInvested = (if 0 < i then sn_invested (monthlySnapshots ! (i - 1)) else Fin 0);
          netFlow = jsub (sn_invested e) startInvested;
          endVal = sn_value e;
          pnl = jsub (jsub endVal startVal) netFlow;
          denominator = jadd startVal (jdiv netFlow (Fin 2));
          pct = (if jneq denominator (Fin 0) then jmul (jdiv pnl denominator) (Fin 100) else Fin 0)
      in if jneq denominator (Fin 0) \<or> jneq pnl (Fin 0)
         then [\<lparr> r_yearMonth = sn_yearMonth e, r_value = pct, r_pnl = pnl \<rparr>]
         else [])"

text \<open>The function from the sorted points on, every date of which parses.\<close>

definition returns_of_sorted ::
  "(int \<Rightarrow> int) \<Rightarrow> (int \<times> ChartDataPoint) list \<Rightarrow> MonthlyReturnData list" where
  "returns_of_sorted monthIndex sortedData =
     (let firstDate = monthIndex (fst (hd sortedData));
          lastDate = monthIndex (fst (last sortedData));
          current = first_of_month (getFullYear firstDate) (getMonth firstDate);
          endMonth = first_of_month (getFullYear lastDate) (getMonth lastDate);
          monthlySnapshots =
            month_loop monthIndex current endMonth sortedData
              \<lparr> ms_value = Fin 0, ms_invested = Fin 0 \<rparr>
      in concat (map (month_return monthlySnapshots) [0 ..< length monthlySnapshots]))"

text \<open>
  The whole function. When every date parses, the points are sorted by their times. A
  single point whose date does not parse gives no month at all: the comparison
  \<^verbatim>\<open>current <= endMonth\<close> of two invalid dates is false. With several points of which one
  does not parse the comparator returns \<open>NaN\<close>, the order \<^verbatim>\<open>Array.prototype.sort\<close> leaves
  is implementation-defined, and the result is \<open>None\<close>: not determined.
\<close>

definition calculateMonthlyReturns ::
  "int \<Rightarrow> (string \<Rightarrow> int option) \<Rightarrow> (int \<Rightarrow> int) \<Rightarrow> ChartDataPoint list
   \<Rightarrow> MonthlyReturnData list option" where
  "calculateMonthlyReturns now parse monthIndex chartData =
     (if length chartData = 0 then Some []
      else
        (case those (map (\<lambda>p. map_option (\<lambda>t. (t, p)) (getDate now parse (p_date p))) chartData) of
           Some timed \<Rightarrow> Some (returns_of_sorted monthIndex (sort_key fst timed))
         | None \<Rightarrow> if length chartData = 1 then Some [] else None))"

section \<open>Predicates used in the statements\<close>

text \<open>\<^verbatim>\<open>tx.symbol\<close> is truthy: present and not the empty string.\<close>

definition has_symbol :: "Transaction \<Rightarrow> bool" where
  "has_symbol tx = (case tx_symbol tx of None \<Rightarrow> False | Some s \<Rightarrow> s \<noteq> [])"

text \<open>Every entry of \<^verbatim>\<open>holdingsMap\<close> sits under its own symbol, and no key occurs twice.\<close>

definition keyed :: "(string \<times> Holding) list \<Rightarrow> bool" where
  "keyed m = (distinct (map fst m) \<and> (\<forall>(k, h)\<in>set m. h_symbol h = k))"

text \<open>A finite number that is at least 0.\<close>

fun nonneg_fin :: "jsnum \<Rightarrow> bool" where
  "nonneg_fin (Fin x) = (0 \<le> x)"
| "nonneg_fin _ = False"

definition buy_shares_ok :: "Transaction \<Rightarrow> bool" where
  "buy_shares_ok t =
     (tx_type t = BUY \<longrightarrow> (case tx_shares t of None \<Rightarrow> True | Some s \<Rightarrow> 0 \<le> s))"

definition shares_ok :: "(string \<times> Holding) list \<Rightarrow> bool" where
  "shares_ok m = (\<forall>kv\<in>set m. nonneg_fin (h_shares (snd kv)))"

text \<open>A number in the closed interval from 0 to 100.\<close>

fun in_percent_range :: "jsnum \<Rightarrow> bool" where
  "in_percent_range (Fin x) = (0 \<le> x \<and> x \<le> 100)"
| "in_percent_range _ = False"

text \<open>A number that is at least 0, \<open>+Infinity\<close> included.\<close>

fun not_below_zero :: "jsnum \<Rightarrow> bool" where
  "not_below_zero (Fin x) = (0 \<le> x)"
| "not_below_zero PInf = True"
| "not_below_zero _ = False"

fun unit_fraction :: "jsnum \<Rightarrow> bool" where
  "unit_fraction (Fin x) = (0 \<le> x \<and> x \<le> 1)"
| "unit_fraction _ = False"

section \<open>Example ledgers\<close>

text \<open>
  A stand-in for \<^verbatim>\<open>new Date(s).getTime()\<close> on dates written \<^verbatim>\<open>YYYY-MM-DD\<close>: the
  digits of the date read as one number, which orders such dates as the calendar does.
\<close>

definition ex_time :: "string \<Rightarrow> int" where
  "ex_time d = int (digits_value 0 (filter is_digit d))"

definition mk_tx ::
  "string \<Rightarrow> TransactionType \<Rightarrow> string option \<Rightarrow> real option \<Rightarrow> real option \<Rightarrow> real option
   \<Rightarrow> Transaction" where
  "mk_tx d t s sh p f =
     \<lparr> tx_id = d, tx_date = d, tx_type = t, tx_symbol = s, tx_name = None,
       tx_assetClass = None, tx_sector = None, tx_shares = sh, tx_price = p, tx_fee = f,
       tx_exchangeRate = None, tx_notes = None \<rparr>"

definition point :: "string \<Rightarrow> real \<Rightarrow> real \<Rightarrow> ChartDataPoint" where
  "point d i v = \<lparr> p_date = d, p_invested = Fin i, p_value = Fin v \<rparr>"

text \<open>A purchase recorded without a quantity, followed by a dividend on the same symbol.\<close>

definition ex_buy_no_shares :: "Transaction list" where
  "ex_buy_no_shares =
     [mk_tx ''2024-01-10'' BUY (Some ''X'') None (Some 10) None,
      mk_tx ''2024-02-10'' DIVIDEND (Some ''X'') None (Some 5) None]"

text \<open>The same with a fee on the purchase.\<close>

definition ex_buy_no_shares_fee :: "Transaction list" where
  "ex_buy_no_shares_fee =
     [mk_tx ''2024-01-10'' BUY (Some ''X'') (Some 0) (Some 10) (Some 5),
      mk_tx ''2024-02-10'' DIVIDEND (Some ''X'') None (Some 5) None]"

definition ex_buy :: Transaction where
  "ex_buy = mk_tx ''2024-01-10'' BUY (Some ''X'') (Some 10) (Some 50) None"

definition ex_split :: Transaction where
  "ex_split = mk_tx ''2024-02-10'' SPLIT (Some ''X'') (Some 2) None None"

definition ex_no_symbol :: Transaction where
  "ex_no_symbol = mk_tx ''2024-01-20'' BUY None (Some 3) (Some 70) (Some 1)"

definition ex_dividend :: Transaction where
  "ex_dividend = mk_tx ''2024-03-01'' DIVIDEND (Some ''X'') None (Some 5) None"

text \<open>Five shares bought at 10, eight sold at 12.\<close>

definition ex_oversell :: "Transaction list" where
  "ex_oversell =
     [mk_tx ''2024-01-10'' BUY (Some ''X'') (Some 5) (Some 10) None,
      mk_tx ''2024-02-10'' SELL (Some ''X'') (Some 8) (Some 12) None]"

text \<open>The values 100, 150, 90, 120 of a timeline, and a timeline that falls below zero.\<close>

definition ex_chart :: "ChartDataPoint list" where
  "ex_chart =
     [point ''2024-01-01'' 100 100, point ''2024-02-01'' 100 150,
      point ''2024-03-01'' 100 90, point ''2024-04-01'' 100 120]"

definition ex_chart_overdrawn :: "ChartDataPoint list" where
  "ex_chart_overdrawn = [point ''2024-01-01'' 100 100, point ''2024-02-01'' (- 50) (- 50)]"

text \<open>A deposit, a purchase and a withdrawal, not in date order, and a live price.\<close>

definition ex_history :: "Transaction list" where
  "ex_history =
     [mk_tx ''2024-02-01'' WITHDRAW None None (Some 200) None,
      mk_tx ''2024-01-05'' DEPOSIT None None (Some 1000) None,
      mk_tx ''2024-01-10'' BUY (Some ''X'') (Some 10) (Some 50) None]"

definition ex_prices :: "string \<rightharpoonup> real" where
  "ex_prices = [''X'' \<mapsto> 60]"

text \<open>The same ledger with a live price of 0 for the symbol, and a table without prices.\<close>

definition ex_price_zero :: "string \<rightharpoonup> real" where
  "ex_price_zero = [''X'' \<mapsto> 0]"

definition no_prices :: "string \<rightharpoonup> real" where
  "no_prices = Map.empty"

text \<open>The doubles that the literals \<^verbatim>\<open>0.1\<close>, \<^verbatim>\<open>0.2\<close> and \<^verbatim>\<open>0.3\<close> denote.\<close>

definition one_tenth :: real where
  "one_tenth = fl (1 / 10)"

definition two_tenths :: real where
  "two_tenths = fl (2 / 10)"

definition three_tenths :: real where
  "three_tenths = fl (3 / 10)"

text \<open>
  \<open>100000000000\<close> shares and \<open>0.3\<close> shares bought, then \<open>100000000000\<close> shares and \<open>0.3\<close>
  shares sold: all that was bought is sold.
\<close>

definition ex_residue :: "Transaction list" where
  "ex_residue =
     [mk_tx ''2024-01-10'' BUY (Some ''X'') (Some 100000000000) (Some 1) None,
      mk_tx ''2024-01-11'' BUY (Some ''X'') (Some three_tenths) (Some 1) None,
      mk_tx ''2024-02-10'' SELL (Some ''X'') (Some 100000000000) (Some 1) None,
      mk_tx ''2024-02-11'' SELL (Some ''X'') (Some three_tenths) (Some 1) None]"

text \<open>\<open>0.1\<close> and \<open>0.2\<close> shares bought at 1, \<open>0.3\<close> shares sold at 2.\<close>

definition ex_sell_rounded :: "Transaction list" where
  "ex_sell_rounded =
     [mk_tx ''2024-01-10'' BUY (Some ''X'') (Some one_tenth) (Some 1) None,
      mk_tx ''2024-01-11'' BUY (Some ''X'') (Some two_tenths) (Some 1) None,
      mk_tx ''2024-02-10'' SELL (Some ''X'') (Some three_tenths) (Some 2) None]"

text \<open>Deposits of \<open>0.3\<close>, \<open>0.2\<close> and \<open>0.1\<close>, the newest listed first.\<close>

definition ex_deposits :: "Transaction list" where
  "ex_deposits =
     [mk_tx ''2024-03-01'' DEPOSIT None None (Some three_tenths) None,
      mk_tx ''2024-02-01'' DEPOSIT None None (Some two_tenths) None,
      mk_tx ''2024-01-01'' DEPOSIT None None (Some one_tenth) None]"

text \<open>
  A runtime for \<^verbatim>\<open>calculateMonthlyReturns\<close>. Times are counted in hours from
  \<^verbatim>\<open>2024-03-01T00:00Z\<close>. \<^verbatim>\<open>new Date(s)\<close> reads a date-only string as midnight UTC of that
  day: \<^verbatim>\<open>'2024-03-15'\<close> is 14 days later, \<^verbatim>\<open>'0050-06-15'\<close> is 720883 days earlier. Any
  other string stands for one that does not parse.
\<close>

definition ex_parse :: "string \<Rightarrow> int option" where
  "ex_parse d =
     (if d = ''2024-03-01'' then Some 0
      else if d = ''2024-03-15'' then Some 336
      else if d = ''0050-06-15'' then Some (- 17301192)
      else None)"

text \<open>
  The local month of a time on a host whose clock is UTC, for the times around these
  dates: June of the year 50 (which ends 16 days after the 15th), then February 2024 up
  to hour 0, March for the 744 hours from there, then April.
\<close>

definition ex_month_utc :: "int \<Rightarrow> int" where
  "ex_month_utc t =
     (if t < - 17300808 then 50 * 12 + 5
      else if t < 0 then 2024 * 12 + 1
      else if t < 744 then 2024 * 12 + 2
      else 2024 * 12 + 3)"

text \<open>The same on a host whose clock is five hours behind UTC (\<^verbatim>\<open>America/New_York\<close> in winter).\<close>

definition ex_month_west :: "int \<Rightarrow> int" where
  "ex_month_west t = ex_month_utc (t - 5)"

text \<open>A timeline of two points in March 2024: value 1000 on the 1st, 1100 on the 15th.\<close>

definition ex_march :: "ChartDataPoint list" where
  "ex_march = [point ''2024-03-01'' 1000 1000, point ''2024-03-15'' 1000 1100]"

section \<open>Auxiliary notions for the timeline\<close>

text \<open>The point a transaction emits, read off the state after it.\<close>

definition point_of :: "Transaction \<Rightarrow> HistoryState \<Rightarrow> ChartDataPoint" where
  "point_of tx s = \<lparr> p_date = tx_date tx, p_invested = hs_invested s,
                     p_value = jadd (hs_cash s) (stockValue (hs_holdings s)) \<rparr>"

text \<open>The states after the first, the first two, ... transactions.\<close>

fun states :: "HistoryState \<Rightarrow> Transaction list \<Rightarrow> HistoryState list" where
  "states st [] = []"
| "states st (t # ts) = history_step t st # states (history_step t st) ts"

text \<open>
  What a transaction does to a running net contribution: a DEPOSIT adds its amount, a
  WITHDRAW subtracts it, any other transaction leaves it.
\<close>

definition net_step :: "Transaction \<Rightarrow> jsnum \<Rightarrow> jsnum" where
  "net_step t acc =
     (if tx_type t = DEPOSIT then jadd acc (Fin (num_or (tx_price t) 0))
      else if tx_type t = WITHDRAW then jsub acc (Fin (num_or (tx_price t) 0))
      else acc)"

section \<open>Properties of rounding\<close>

lemma fl_0 [simp]: "fl 0 = 0"
  by (simp add: fl_def)

lemma round_even_of_int [simp]: "round_even (of_int i) = i"
  by (simp add: round_even_def)

lemma round_even_cases:
  "round_even y = \<lfloor>y\<rfloor> \<and> y - of_int \<lfloor>y\<rfloor> \<le> 1 / 2
   \<or> round_even y = \<lfloor>y\<rfloor> + 1 \<and> 1 / 2 \<le> y - of_int \<lfloor>y\<rfloor>"
  by (simp add: round_even_def Let_def)

lemma round_even_upper: "of_int (round_even y) \<le> y + 1 / 2"
  using round_even_cases[of y] by (auto; linarith)

lemma round_even_lower: "y - 1 / 2 \<le> of_int (round_even y)"
  using round_even_cases[of y] by (auto; linarith)

lemma round_even_ge_floor: "\<lfloor>y\<rfloor> \<le> round_even y"
  using round_even_cases[of y] by auto

lemma round_even_le_floor1: "round_even y \<le> \<lfloor>y\<rfloor> + 1"
  using round_even_cases[of y] by auto


lemma round_even_mono: "a \<le> b \<Longrightarrow> round_even a \<le> round_even b"
proof -
  assume ab: "a \<le> b"
  have fab: "\<lfloor>a\<rfloor> \<le> \<lfloor>b\<rfloor>" using ab by (rule floor_mono)
  show ?thesis
  proof (cases "\<lfloor>a\<rfloor> = \<lfloor>b\<rfloor>")
    case True
    have "a - of_int \<lfloor>a\<rfloor> \<le> b - of_int \<lfloor>b\<rfloor>" using ab True by simp
    then show ?thesis using True
      unfolding round_even_def Let_def by (simp split: if_splits) linarith?
  next
    case False
    then have "\<lfloor>a\<rfloor> + 1 \<le> \<lfloor>b\<rfloor>" using fab by simp
    with round_even_le_floor1[of a] round_even_ge_floor[of b] show ?thesis by linarith
  qed
qed

lemma powr_powi: "(2::real) powr real_of_int k = 2 powi k"
  by (simp add: powr_real_of_int')

lemma exponent_unique:
  assumes "0 < x" "2 powi e \<le> x" "x < 2 powi (e + 1)"
  shows "\<lfloor>log 2 x\<rfloor> = e"
proof -
  have "2 powr real_of_int e \<le> x \<and> x < 2 powr real_of_int (e + 1)"
    using assms by (simp only: powr_powi)
  then show ?thesis
    using floor_log_eq_powr_iff[of x 2 e] assms(1) by simp
qed

lemma exponent_bounds:
  assumes "0 < x"
  shows "2 powi \<lfloor>log 2 x\<rfloor> \<le> x" "x < 2 powi (\<lfloor>log 2 x\<rfloor> + 1)"
proof -
  have "2 powr real_of_int \<lfloor>log 2 x\<rfloor> \<le> x \<and> x < 2 powr real_of_int (\<lfloor>log 2 x\<rfloor> + 1)"
    using floor_log_eq_powr_iff[of x 2 "\<lfloor>log 2 x\<rfloor>"] assms by simp
  then show "2 powi \<lfloor>log 2 x\<rfloor> \<le> x" "x < 2 powi (\<lfloor>log 2 x\<rfloor> + 1)"
    by (simp_all only: powr_powi)
qed

text \<open>The certificate for evaluating \<open>fl\<close>: the binade of \<open>x\<close> fixes the unit.\<close>

lemma fl_binade:
  assumes "2 powi e \<le> \<bar>x\<bar>" "\<bar>x\<bar> < 2 powi (e + 1)"
  shows "fl x = of_int (round_even (x / 2 powi (e - 52))) * 2 powi (e - 52)"
proof -
  have "0 < (2::real) powi e" by simp
  with assms(1) have pos: "0 < \<bar>x\<bar>" by linarith
  then have "x \<noteq> 0" by simp
  moreover have "\<lfloor>log 2 \<bar>x\<bar>\<rfloor> = e" by (rule exponent_unique[OF pos assms])
  ultimately show ?thesis by (simp add: fl_def Let_def)
qed


lemma fl_pos_unfold:
  assumes "0 < x"
  shows "fl x = of_int (round_even (x / 2 powi (\<lfloor>log 2 x\<rfloor> - 52))) * 2 powi (\<lfloor>log 2 x\<rfloor> - 52)"
  using assms by (simp add: fl_def Let_def)

lemma scaled_bounds:
  assumes "0 < x"
  shows "2 ^ 52 \<le> x / 2 powi (\<lfloor>log 2 x\<rfloor> - 52)" "x / 2 powi (\<lfloor>log 2 x\<rfloor> - 52) < 2 ^ 53"
proof -
  let ?e = "\<lfloor>log 2 x\<rfloor>"
  have u: "(2::real) powi (?e - 52) = 2 powi ?e / 2 ^ 52"
    by (simp add: power_int_diff)
  have u1: "(2::real) powi (?e + 1) = 2 powi ?e * 2"
    by (simp add: power_int_add)
  have p: "0 < (2::real) powi ?e" by simp
  from exponent_bounds[OF assms] p
  show "2 ^ 52 \<le> x / 2 powi (?e - 52)" "x / 2 powi (?e - 52) < 2 ^ 53"
    unfolding u u1 by (simp_all add: field_simps)
qed

lemma fl_binade_lower:
  assumes "0 < x"
  shows "2 powi \<lfloor>log 2 x\<rfloor> \<le> fl x"
proof -
  let ?u = "(2::real) powi (\<lfloor>log 2 x\<rfloor> - 52)"
  have "round_even (2 ^ 52) \<le> round_even (x / ?u)"
    by (rule round_even_mono) (rule scaled_bounds[OF assms])
  moreover have "round_even (2 ^ 52) = 2 ^ 52"
    using round_even_of_int[of "2 ^ 52"] by simp
  ultimately have "(2::real) ^ 52 \<le> of_int (round_even (x / ?u))"
    by (metis of_int_le_iff of_int_numeral of_int_power)
  then have "2 ^ 52 * ?u \<le> of_int (round_even (x / ?u)) * ?u"
    by (rule mult_right_mono) simp
  moreover have "2 ^ 52 * ?u = 2 powi \<lfloor>log 2 x\<rfloor>"
    by (simp add: power_int_diff)
  moreover have "fl x = of_int (round_even (x / ?u)) * ?u"
    by (rule fl_pos_unfold[OF assms])
  ultimately show ?thesis by (simp only:)
qed

lemma fl_binade_upper:
  assumes "0 < x"
  shows "fl x \<le> 2 powi (\<lfloor>log 2 x\<rfloor> + 1)"
proof -
  let ?u = "(2::real) powi (\<lfloor>log 2 x\<rfloor> - 52)"
  have "round_even (x / ?u) \<le> round_even (2 ^ 53)"
    by (rule round_even_mono) (use scaled_bounds[OF assms] in simp)
  moreover have "round_even (2 ^ 53) = 2 ^ 53"
    using round_even_of_int[of "2 ^ 53"] by simp
  ultimately have "of_int (round_even (x / ?u)) \<le> (2::real) ^ 53"
    by (metis of_int_le_iff of_int_numeral of_int_power)
  then have "of_int (round_even (x / ?u)) * ?u \<le> 2 ^ 53 * ?u"
    by (rule mult_right_mono) simp
  moreover have "2 ^ 53 * ?u = 2 powi (\<lfloor>log 2 x\<rfloor> + 1)"
    by (simp add: power_int_diff power_int_add)
  moreover have "fl x = of_int (round_even (x / ?u)) * ?u"
    by (rule fl_pos_unfold[OF assms])
  ultimately show ?thesis by (simp only:)
qed

lemma fl_pos: "0 < x \<Longrightarrow> 0 < fl x"
  using fl_binade_lower[of x] zero_less_power_int[of "2::real" "\<lfloor>log 2 x\<rfloor>"] by linarith

lemma fl_nonneg: "0 \<le> x \<Longrightarrow> 0 \<le> fl x"
  using fl_pos[of x] by (cases "x = 0") auto

lemma fl_mono_pos:
  assumes "0 < x" "x \<le> y"
  shows "fl x \<le> fl y"
proof -
  have y: "0 < y" using assms by linarith
  have le: "\<lfloor>log 2 x\<rfloor> \<le> \<lfloor>log 2 y\<rfloor>"
    using assms by (intro floor_mono) simp
  show ?thesis
  proof (cases "\<lfloor>log 2 x\<rfloor> = \<lfloor>log 2 y\<rfloor>")
    case True
    let ?u = "(2::real) powi (\<lfloor>log 2 y\<rfloor> - 52)"
    have "x / ?u \<le> y / ?u" using assms by (simp add: divide_right_mono)
    then have "round_even (x / ?u) \<le> round_even (y / ?u)" by (rule round_even_mono)
    then have "of_int (round_even (x / ?u)) * ?u \<le> of_int (round_even (y / ?u)) * ?u"
      by (simp add: mult_right_mono)
    then show ?thesis by (simp add: fl_pos_unfold[OF assms(1)] fl_pos_unfold[OF y] True)
  next
    case False
    then have "\<lfloor>log 2 x\<rfloor> + 1 \<le> \<lfloor>log 2 y\<rfloor>" using le by simp
    then have "(2::real) powi (\<lfloor>log 2 x\<rfloor> + 1) \<le> 2 powi \<lfloor>log 2 y\<rfloor>"
      by (intro power_int_increasing) simp_all
    with fl_binade_upper[OF assms(1)] fl_binade_lower[OF y] show ?thesis by linarith
  qed
qed

lemma fl_mono_nonneg: "0 \<le> x \<Longrightarrow> x \<le> y \<Longrightarrow> fl x \<le> fl y"
  using fl_mono_pos[of x y] fl_nonneg[of y] by (cases "x = 0") auto


lemma fl_scale_up:
  assumes "2 ^ 52 \<le> \<bar>x\<bar> * 2 ^ n" "\<bar>x\<bar> * 2 ^ n < 2 ^ 53"
  shows "fl x = of_int (round_even (x * 2 ^ n)) / 2 ^ n"
proof -
  have e: "(2::real) powi (52 - int n) = 2 ^ 52 / 2 ^ n" "(2::real) powi (52 - int n + 1) = 2 ^ 53 / 2 ^ n"
    "(2::real) powi (52 - int n - 52) = 1 / 2 ^ n"
    by (simp_all add: power_int_diff power_int_add power_int_minus_divide)
  have "2 powi (52 - int n) \<le> \<bar>x\<bar>" "\<bar>x\<bar> < 2 powi (52 - int n + 1)"
    using assms unfolding e by (simp_all add: field_simps)
  from fl_binade[OF this] show ?thesis unfolding e by simp
qed

lemma fl_scale_down:
  assumes "2 ^ 52 \<le> \<bar>x\<bar> / 2 ^ n" "\<bar>x\<bar> / 2 ^ n < 2 ^ 53"
  shows "fl x = of_int (round_even (x / 2 ^ n)) * 2 ^ n"
proof -
  have e: "(2::real) powi (52 + int n) = 2 ^ 52 * 2 ^ n" "(2::real) powi (52 + int n + 1) = 2 ^ 53 * 2 ^ n"
    "(2::real) powi (52 + int n - 52) = 2 ^ n"
    by (simp_all add: power_int_add)
  have "2 powi (52 + int n) \<le> \<bar>x\<bar>" "\<bar>x\<bar> < 2 powi (52 + int n + 1)"
    using assms unfolding e by (simp_all add: field_simps)
  from fl_binade[OF this] show ?thesis unfolding e by simp
qed

text \<open>An integer below \<open>2^53\<close> in absolute value, scaled by a power of two, is a double.\<close>

lemma fl_of_int:
  assumes "\<bar>m\<bar> < 2 ^ 53"
  shows "fl (of_int m) = of_int m"
proof (cases "m = 0")
  case True
  then show ?thesis by simp
next
  case False
  define a where "a = \<bar>real_of_int m\<bar>"
  have a1: "1 \<le> a" using False by (simp add: a_def) 
  have a2: "a < 2 ^ 53" using assms unfolding a_def
    by (metis of_int_abs of_int_less_iff of_int_numeral of_int_power)
  let ?e = "\<lfloor>log 2 a\<rfloor>"
  have apos: "0 < a" using a1 by linarith
  have lo: "0 \<le> ?e" using a1 by simp
  have "(2::real) powi ?e \<le> a" by (rule exponent_bounds[OF apos])
  also note a2
  finally have "(2::real) powi ?e < 2 powi 53" by simp
  then have hi: "?e < 53"
    using power_int_le_imp_less_exp[of "2::real" ?e 53] by simp
  define n where "n = nat (52 - ?e)"
  have n: "int n = 52 - ?e" using hi by (simp add: n_def)
  have u: "(2::real) powi (?e - 52) = 1 / 2 ^ n"
  proof -
    have "?e - 52 = - int n" using n by simp
    then show ?thesis by (simp add: power_int_minus_divide)
  qed
  have "real_of_int m / (1 / 2 ^ n) = of_int (m * 2 ^ n)" by simp
  then have r: "round_even (real_of_int m / (1 / 2 ^ n)) = m * 2 ^ n"
    by (simp only: round_even_of_int)
  have "real_of_int m \<noteq> 0" using False by simp
  then have "fl (of_int m) = of_int (round_even (of_int m / 2 powi (?e - 52))) * 2 powi (?e - 52)"
    by (simp add: fl_def Let_def a_def)
  also have "\<dots> = of_int (m * 2 ^ n) * (1 / 2 ^ n)"
    unfolding u r ..
  also have "\<dots> = of_int m" by simp
  finally show ?thesis .
qed

lemma fl_numeral [simp]: "numeral k < (2::int) ^ 53 \<Longrightarrow> fl (numeral k) = numeral k"
  using fl_of_int[of "numeral k"] by simp

lemma fl_neg_numeral [simp]: "numeral k < (2::int) ^ 53 \<Longrightarrow> fl (- numeral k) = - numeral k"
  using fl_of_int[of "- numeral k"] by simp

lemma fl_1 [simp]: "fl 1 = 1"
  using fl_of_int[of 1] by simp

lemma fl_upper_err:
  assumes "0 < x"
  shows "fl x \<le> x + x / 2 ^ 53"
proof -
  let ?e = "\<lfloor>log 2 x\<rfloor>"
  let ?u = "(2::real) powi (?e - 52)"
  have upos: "0 < ?u" by simp
  have "of_int (round_even (x / ?u)) * ?u \<le> (x / ?u + 1 / 2) * ?u"
    by (rule mult_right_mono[OF round_even_upper]) simp
  also have "\<dots> = x + ?u / 2" using upos by (simp add: field_simps)
  also have "?u / 2 \<le> x / 2 ^ 53"
  proof -
    have "?u = 2 powi ?e / 2 ^ 52" by (simp add: power_int_diff)
    moreover have "2 powi ?e \<le> x" by (rule exponent_bounds[OF assms])
    ultimately show ?thesis by (simp add: field_simps)
  qed
  finally show ?thesis by (simp add: fl_pos_unfold[OF assms])
qed

lemma fl_just_above_one:
  assumes "0 \<le> y" "y \<le> 1 + 1 / 2 ^ 53"
  shows "fl y \<le> 1"
proof (cases "y \<le> 1")
  case True
  then show ?thesis using fl_mono_nonneg[OF assms(1), of 1] by simp
next
  case False
  then have y1: "1 < y" by simp
  have fy: "\<lfloor>y * 2 ^ 52\<rfloor> = 2 ^ 52"
    using y1 assms(2) by (intro floor_unique) (simp_all add: field_simps)
  have fr: "y * 2 ^ 52 - of_int \<lfloor>y * 2 ^ 52\<rfloor> \<le> 1 / 2"
    unfolding fy using assms(2) by (simp add: field_simps)
  have "round_even (y * 2 ^ 52) = 2 ^ 52"
    using fr unfolding round_even_def Let_def fy by auto
  moreover have "2 ^ 52 \<le> \<bar>y\<bar> * 2 ^ 52" "\<bar>y\<bar> * 2 ^ 52 < 2 ^ 53"
    using y1 assms(2) by (simp_all add: field_simps)
  ultimately show ?thesis
    using fl_scale_up[of y 52] by simp
qed

lemma fl_quotient_le_one:
  assumes "0 < p" "0 \<le> w" "w \<le> p"
  shows "0 \<le> fl (fl w / p)" "fl (fl w / p) \<le> 1"
proof -
  have w0: "0 \<le> fl w" by (rule fl_nonneg[OF assms(2)])
  then have q0: "0 \<le> fl w / p" using assms(1) by simp
  then show "0 \<le> fl (fl w / p)" by (rule fl_nonneg)
  have "fl w \<le> p + p / 2 ^ 53"
  proof (cases "w = 0")
    case True
    then show ?thesis using assms(1) by simp
  next
    case False
    then have "0 < w" using assms(2) by simp
    from fl_upper_err[OF this] assms(3) show ?thesis
      by (smt (verit) divide_right_mono zero_le_numeral zero_le_power)
  qed
  then have "fl w / p \<le> 1 + 1 / 2 ^ 53"
    using assms(1) by (simp add: field_simps)
  with q0 show "fl (fl w / p) \<le> 1" by (rule fl_just_above_one)
qed

lemma epsilon_pos: "0 < epsilon"
  unfolding epsilon_def by (rule fl_pos) simp

lemma epsilon_value: "epsilon = 4722366482869645 / 2 ^ 72"
  unfolding epsilon_def
  by (subst fl_scale_up[where n = 72]) (simp_all add: round_even_def Let_def)

section \<open>The doubles of the examples\<close>

lemma tenths_value:
  "one_tenth = 3602879701896397 / 2 ^ 55"
  "two_tenths = 3602879701896397 / 2 ^ 54"
  "three_tenths = 5404319552844595 / 2 ^ 54"
  unfolding one_tenth_def two_tenths_def three_tenths_def
  by (simp_all add: fl_scale_up[where n = 54] fl_scale_up[where n = 55] fl_scale_up[where n = 56]
        round_even_def)

section \<open>Properties of \<^verbatim>\<open>calculateHoldings\<close>\<close>

lemmas holdings_eval =
  calculateHoldings_def sortedTx_def replay_holdings_def process_tx_def accumulator_def
  new_holding_def apply_tx_def num_or_def str_or_def object_values_def object_entries_def
  is_array_index_def is_digit_def finalize_def keep_holding_def jgt_def jneq_def jsub_def
  Let_def mk_tx_def ex_time_def epsilon_value

lemma process_tx_no_symbol: "\<not> has_symbol tx \<Longrightarrow> process_tx prices tx m = m"
  by (auto simp: has_symbol_def process_tx_def split: option.splits)

lemma process_tx_same:
  "tx_symbol tx = Some symb \<Longrightarrow> symb \<noteq> [] \<Longrightarrow>
   map_of (process_tx prices tx m) symb = Some (apply_tx tx (accumulator prices tx symb m))"
  by (simp add: process_tx_def update_conv')

lemma process_tx_other:
  "tx_symbol tx \<noteq> Some k \<Longrightarrow> map_of (process_tx prices tx m) k = map_of m k"
  by (auto simp: process_tx_def update_conv' split: option.splits)

lemma fold_process_other:
  "\<forall>u\<in>set txs. tx_symbol u \<noteq> Some k \<Longrightarrow>
   map_of (fold (process_tx prices) txs m) k = map_of m k"
  by (induction txs arbitrary: m) (simp_all add: process_tx_other)

lemma apply_tx_symbol: "h_symbol (apply_tx tx h) = h_symbol h"
  by (simp add: apply_tx_def Let_def split: TransactionType.splits)

lemma set_update_subset: "set (AList.update k v al) \<subseteq> insert (k, v) (set al)"
  by (induction al) auto

lemma keyed_process:
  assumes k: "keyed m"
  shows "keyed (process_tx prices tx m)"
proof (cases "has_symbol tx")
  case False
  then show ?thesis using k by (simp add: process_tx_no_symbol)
next
  case True
  then obtain symb where s: "tx_symbol tx = Some symb" "symb \<noteq> []"
    by (auto simp: has_symbol_def split: option.splits)
  have acc: "h_symbol (accumulator prices tx symb m) = symb"
    using k
    by (auto simp: accumulator_def new_holding_def keyed_def split: option.splits
             dest!: map_of_SomeD)
  have "process_tx prices tx m = AList.update symb (apply_tx tx (accumulator prices tx symb m)) m"
    using s by (simp add: process_tx_def)
  then show ?thesis
    using k acc set_update_subset[of symb "apply_tx tx (accumulator prices tx symb m)" m]
    by (auto simp: keyed_def distinct_update apply_tx_symbol)
qed

lemma keyed_fold: "keyed m \<Longrightarrow> keyed (fold (process_tx prices) txs m)"
  by (induction txs arbitrary: m) (simp_all add: keyed_process)

lemma keyed_replay: "keyed (replay_holdings prices txs)"
  unfolding replay_holdings_def by (rule keyed_fold) (simp add: keyed_def)

lemma set_object_entries: "set (object_entries al) = set al"
  by (auto simp: object_entries_def)

lemma set_object_values: "set (object_values al) = snd ` set al"
  by (simp add: object_values_def set_object_entries)

lemma finalize_fields:
  "h_symbol (finalize prices targets h) = h_symbol h"
  "h_shares (finalize prices targets h) = h_shares h"
  "h_totalCost (finalize prices targets h) = h_totalCost h"
  "h_avgCost (finalize prices targets h) = h_avgCost h"
  by (simp_all add: finalize_def Let_def)

text \<open>Every holding of the output is the finalised accumulator of its symbol.\<close>

lemma calculateHoldings_elem:
  assumes "h \<in> set (calculateHoldings getTime transactions prices targets)"
  shows "\<exists>a. map_of (replay_holdings prices (sortedTx getTime transactions)) (h_symbol h) = Some a
             \<and> h = finalize prices targets a"
proof -
  let ?m = "replay_holdings prices (sortedTx getTime transactions)"
  from assms obtain k a where ka: "(k, a) \<in> set ?m" "h = finalize prices targets a"
    by (auto simp: calculateHoldings_def set_object_values)
  have "keyed ?m" by (rule keyed_replay)
  with ka have "h_symbol a = k" "map_of ?m k = Some a"
    by (auto simp: keyed_def)
  with ka show ?thesis by (auto simp: finalize_fields)
qed

subsection \<open>Average cost after a purchase of zero shares\<close>

text \<open>
  C1. The claim: the division \<^verbatim>\<open>h.totalCost / h.shares\<close> of a BUY is guarded, so that a
  purchase that leaves the share count at 0 gives an average cost of 0. The program
  divides without a guard. On a purchase recorded without a quantity the average cost of
  the returned holding is \<open>NaN\<close>, and with a fee on that purchase it is \<open>+Infinity\<close>.
\<close>

theorem buy_zero_shares_avgCost:
  "map h_avgCost (calculateHoldings ex_time ex_buy_no_shares Map.empty Map.empty) = [NaN]
   \<and> map h_avgCost (calculateHoldings ex_time ex_buy_no_shares_fee Map.empty Map.empty) = [PInf]"
  by (simp add: ex_buy_no_shares_def ex_buy_no_shares_fee_def holdings_eval)

subsection \<open>Selling down to nothing\<close>

lemma sell_clamps:
  assumes "tx_type tx = SELL"
    and "jlt (jsub (h_shares h) (Fin (num_or (tx_shares tx) 0))) (Fin epsilon)
         \<or> h_shares h = Fin (num_or (tx_shares tx) 0)"
  shows "h_shares (apply_tx tx h) = Fin 0 \<and> h_totalCost (apply_tx tx h) = Fin 0"
  using assms epsilon_pos by (auto simp: apply_tx_def Let_def jsub_def)

text \<open>
  C3, as claimed: whenever all the shares held of a symbol are sold, the accumulator and
  the returned holding have \<open>shares = 0\<close> and \<open>totalCost = 0\<close>, never a residue. Take
  \<open>100000000000\<close> and \<open>0.3\<close> shares bought and the same two quantities sold. The count
  after the purchases is the double nearest to \<open>100000000000.3\<close>, which is
  \<open>100000000000.3000030517578125\<close>; the two sales leave about \<open>0.00000305\<close>, which is
  not below \<open>0.000001\<close> and stays, in \<open>shares\<close> and in \<open>totalCost\<close>.
\<close>

theorem sell_all_leaves_residue:
  "map h_shares (calculateHoldings ex_time ex_residue no_prices no_prices)
     = [Fin (54975581389 / 2 ^ 54)]
   \<and> map h_totalCost (calculateHoldings ex_time ex_residue no_prices no_prices)
     = [Fin (54975581389 / 2 ^ 54)]
   \<and> map h_shares (calculateHoldings ex_time ex_residue no_prices no_prices) \<noteq> [Fin 0]"
  by (simp add: ex_residue_def no_prices_def tenths_value holdings_eval
        fl_scale_up[where n = 16] fl_scale_up[where n = 54] fl_scale_up[where n = 71]
        round_even_def)

text \<open>
  C3, amended. Let a SELL of a symbol come after the transactions \<open>pre\<close> in date order,
  and let \<open>held\<close> be the symbol's running share count at that moment. If the count after
  the sale is below \<open>0.000001\<close>, and in particular if the quantity sold is the running
  count itself, then the accumulator after the sale has \<open>shares = 0\<close> and
  \<open>totalCost = 0\<close>. When no later transaction names the symbol, the holding returned for
  it has them too.
\<close>

theorem sell_zero_residue:
  assumes "sortedTx getTime transactions = pre @ tx # post"
    and "tx_type tx = SELL" and "tx_symbol tx = Some symb" and "symb \<noteq> []"
    and "\<forall>u\<in>set post. tx_symbol u \<noteq> Some symb"
    and "held = h_shares (accumulator prices tx symb (replay_holdings prices pre))"
    and "jlt (jsub held (Fin (num_or (tx_shares tx) 0))) (Fin epsilon)
         \<or> held = Fin (num_or (tx_shares tx) 0)"
  shows "(\<exists>h. map_of (replay_holdings prices (pre @ [tx])) symb = Some h
              \<and> h_shares h = Fin 0 \<and> h_totalCost h = Fin 0)
         \<and> (\<forall>h\<in>set (calculateHoldings getTime transactions prices targets).
               h_symbol h = symb \<longrightarrow> h_shares h = Fin 0 \<and> h_totalCost h = Fin 0)"
proof -
  let ?m = "replay_holdings prices pre"
  let ?a = "apply_tx tx (accumulator prices tx symb ?m)"
  have z: "h_shares ?a = Fin 0 \<and> h_totalCost ?a = Fin 0"
    using assms(2,6,7) by (intro sell_clamps) auto
  have step: "map_of (replay_holdings prices (pre @ [tx])) symb = Some ?a"
    using assms(3,4) by (simp add: replay_holdings_def process_tx_same)
  have "replay_holdings prices (sortedTx getTime transactions)
          = fold (process_tx prices) post (replay_holdings prices (pre @ [tx]))"
    by (simp add: assms(1) replay_holdings_def)
  then have final:
    "map_of (replay_holdings prices (sortedTx getTime transactions)) symb = Some ?a"
    using assms(5) step by (simp add: fold_process_other)
  have "h_shares h = Fin 0 \<and> h_totalCost h = Fin 0"
    if "h \<in> set (calculateHoldings getTime transactions prices targets)" "h_symbol h = symb"
    for h
    using calculateHoldings_elem[OF that(1)] that(2) final z by (auto simp: finalize_fields)
  with step z show ?thesis by blast
qed

theorem sell_zero_residue_witness:
  "jsub (jadd (Fin one_tenth) (Fin two_tenths)) (Fin three_tenths) = Fin (1 / 2 ^ 54)
   \<and> map (\<lambda>h. (h_symbol h, h_shares h, h_totalCost h))
       (calculateHoldings ex_time ex_sell_rounded no_prices no_prices) = [(''X'', Fin 0, Fin 0)]"
proof -
  let ?buy1 = "mk_tx ''2024-01-10'' BUY (Some ''X'') (Some one_tenth) (Some 1) None"
  let ?buy2 = "mk_tx ''2024-01-11'' BUY (Some ''X'') (Some two_tenths) (Some 1) None"
  let ?sell = "mk_tx ''2024-02-10'' SELL (Some ''X'') (Some three_tenths) (Some 2) None"
  have s: "sortedTx ex_time ex_sell_rounded = [?buy1, ?buy2] @ ?sell # []"
    by (simp add: ex_sell_rounded_def sortedTx_def ex_time_def is_digit_def mk_tx_def)
  have t: "tx_type ?sell = SELL" "tx_symbol ?sell = Some ''X''" "''X'' \<noteq> []"
      "\<forall>u\<in>set []. tx_symbol u \<noteq> Some ''X''"
    by (simp_all add: mk_tx_def)
  have held:
    "Fin (5404319552844596 / 2 ^ 54)
     = h_shares (accumulator no_prices ?sell ''X'' (replay_holdings no_prices [?buy1, ?buy2]))"
    by (simp add: no_prices_def tenths_value holdings_eval
          fl_scale_up[where n = 54] fl_scale_up[where n = 55] fl_scale_up[where n = 56]
          round_even_def)
  have d: "jsub (jadd (Fin one_tenth) (Fin two_tenths)) (Fin three_tenths) = Fin (1 / 2 ^ 54)"
    by (simp add: tenths_value jsub_def
          fl_scale_up[where n = 54] fl_scale_up[where n = 106] round_even_def)
  have c: "jlt (jsub (Fin (5404319552844596 / 2 ^ 54)) (Fin (num_or (tx_shares ?sell) 0)))
             (Fin epsilon)
           \<or> Fin (5404319552844596 / 2 ^ 54) = Fin (num_or (tx_shares ?sell) 0)"
    by (simp add: mk_tx_def num_or_def tenths_value jsub_def epsilon_value
          fl_scale_up[where n = 106] round_even_def)
  have sym:
    "map h_symbol (calculateHoldings ex_time ex_sell_rounded no_prices no_prices) = [''X'']"
    by (simp add: ex_sell_rounded_def no_prices_def tenths_value holdings_eval
          fl_scale_up[where n = 53] fl_scale_up[where n = 54] fl_scale_up[where n = 55]
          fl_scale_up[where n = 56] fl_scale_up[where n = 106] round_even_def)
  from sell_zero_residue[OF s t held c, of no_prices]
  have "\<forall>h\<in>set (calculateHoldings ex_time ex_sell_rounded no_prices no_prices).
          h_symbol h = ''X'' \<longrightarrow> h_shares h = Fin 0 \<and> h_totalCost h = Fin 0"
    by blast
  with sym d show ?thesis
    by (cases "calculateHoldings ex_time ex_sell_rounded no_prices no_prices") auto
qed

subsection \<open>Stock splits\<close>

text \<open>
  C4. Let \<open>h\<close> be the accumulator of the symbol of a SPLIT whose \<open>shares\<close> field holds the
  ratio \<open>r\<close>. If \<open>r > 0\<close>, the accumulator after the transaction is \<open>h\<close> with its share
  count multiplied by \<open>r\<close> and its average cost divided by \<open>r\<close>, each product and quotient
  rounded as the machine rounds it; \<open>totalCost\<close> and every other field are as before.
  Otherwise the accumulator is \<open>h\<close> as it was. No other symbol is touched in either case.
\<close>

theorem split_neutrality:
  assumes "tx_type tx = SPLIT" and "tx_symbol tx = Some symb" and "symb \<noteq> []"
  shows "let r = num_or (tx_shares tx) 0;
             h = accumulator prices tx symb holdingsMap;
             after = map_of (process_tx prices tx holdingsMap)
         in (0 < r \<longrightarrow>
               after symb = Some (h\<lparr> h_shares := jmul (h_shares h) (Fin r),
                                     h_avgCost := jdiv (h_avgCost h) (Fin r) \<rparr>)
               \<and> map_option h_totalCost (after symb) = Some (h_totalCost h))
          \<and> (\<not> 0 < r \<longrightarrow> after symb = Some h)
          \<and> (\<forall>k. k \<noteq> symb \<longrightarrow> after k = map_of holdingsMap k)"
  using assms
  by (auto simp: Let_def process_tx_same process_tx_other apply_tx_def jgt_def)

theorem split_neutrality_witness:
  "map_option (\<lambda>h. (h_shares h, h_avgCost h, h_totalCost h))
     (map_of (process_tx Map.empty ex_split (replay_holdings Map.empty [ex_buy])) ''X'')
   = Some (Fin 20, Fin 25, Fin 500)"
proof -
  have h: "tx_type ex_split = SPLIT" "tx_symbol ex_split = Some ''X''" "''X'' \<noteq> []"
    by (simp_all add: ex_split_def mk_tx_def)
  have r: "num_or (tx_shares ex_split) 0 = 2"
    by (simp add: ex_split_def mk_tx_def num_or_def)
  have a: "accumulator Map.empty ex_split ''X'' (replay_holdings Map.empty [ex_buy])
     = (new_holding Map.empty ex_buy ''X'')
         \<lparr> h_totalCost := Fin 500, h_shares := Fin 10, h_avgCost := Fin 50 \<rparr>"
    by (simp add: ex_buy_def holdings_eval)
  show ?thesis
    using split_neutrality[OF h, of Map.empty "replay_holdings Map.empty [ex_buy]"]
    by (simp add: Let_def r a)
qed

text \<open>
  The product \<open>shares \<times> avgCost\<close> is kept by a split only as far as the rounding of the
  two new fields allows: for 10 shares at an average cost of 50 and a ratio of 3 it is
  \<open>500.00000000000006\<close> afterwards.
\<close>

lemma split_product_rounded:
  "jmul (jmul (Fin 10) (Fin 3)) (jdiv (Fin 50) (Fin 3)) = Fin (500 + 1 / 2 ^ 44)"
  by (simp add: fl_scale_up[where n = 48] fl_scale_up[where n = 44] round_even_def)

subsection \<open>Transactions without a symbol\<close>

lemma fold_process_filter:
  "fold (process_tx prices) txs m = fold (process_tx prices) (filter has_symbol txs) m"
  by (induction txs arbitrary: m) (simp_all add: process_tx_no_symbol)

text \<open>
  C8. A transaction whose symbol is absent (or the empty string) contributes nothing:
  the holdings computed from a ledger that contains it are the holdings computed from the
  ledger without it. This holds for a transaction of any type.
\<close>

theorem missing_symbol_skipped:
  assumes "tx_symbol tx = None \<or> tx_symbol tx = Some []"
  shows "calculateHoldings getTime (xs @ tx # ys) prices targets
         = calculateHoldings getTime (xs @ ys) prices targets"
proof -
  have n: "\<not> has_symbol tx" using assms by (auto simp: has_symbol_def)
  have "replay_holdings prices (sortedTx getTime (xs @ tx # ys))
        = fold (process_tx prices)
            (sort_key (\<lambda>t. getTime (tx_date t)) (filter has_symbol (xs @ tx # ys))) []"
    unfolding replay_holdings_def sortedTx_def
    by (subst fold_process_filter) (simp only: filter_sort)
  also have "filter has_symbol (xs @ tx # ys) = filter has_symbol (xs @ ys)"
    using n by simp
  also have "fold (process_tx prices)
               (sort_key (\<lambda>t. getTime (tx_date t)) (filter has_symbol (xs @ ys))) []
        = replay_holdings prices (sortedTx getTime (xs @ ys))"
    unfolding replay_holdings_def sortedTx_def
    by (subst (2) fold_process_filter) (simp only: filter_sort)
  finally show ?thesis by (simp add: calculateHoldings_def)
qed

theorem missing_symbol_skipped_witness:
  "calculateHoldings ex_time ([ex_buy] @ ex_no_symbol # [ex_dividend]) Map.empty Map.empty
   = calculateHoldings ex_time ([ex_buy] @ [ex_dividend]) Map.empty Map.empty
   \<and> map (\<lambda>h. (h_symbol h, h_shares h, h_totalCost h))
       (calculateHoldings ex_time ([ex_buy] @ [ex_dividend]) Map.empty Map.empty)
     = [(''X'', Fin 10, Fin 500)]"
proof -
  have h: "tx_symbol ex_no_symbol = None \<or> tx_symbol ex_no_symbol = Some []"
    by (simp add: ex_no_symbol_def mk_tx_def)
  have v: "map (\<lambda>h. (h_symbol h, h_shares h, h_totalCost h))
       (calculateHoldings ex_time ([ex_buy] @ [ex_dividend]) Map.empty Map.empty)
     = [(''X'', Fin 10, Fin 500)]"
    by (simp add: ex_buy_def ex_dividend_def holdings_eval)
  from missing_symbol_skipped[OF h, of ex_time "[ex_buy]" "[ex_dividend]" Map.empty Map.empty] v
  show ?thesis by blast
qed

subsection \<open>Share counts are never negative\<close>

lemma apply_tx_nonneg:
  assumes "buy_shares_ok tx" "nonneg_fin (h_shares h)"
  shows "nonneg_fin (h_shares (apply_tx tx h))"
proof -
  obtain a where a: "h_shares h = Fin a" "0 \<le> a"
    using assms(2) by (cases "h_shares h") auto
  show ?thesis
  proof (cases "tx_type tx")
    case BUY
    then have "0 \<le> num_or (tx_shares tx) 0"
      using assms(1) by (auto simp: buy_shares_ok_def num_or_def split: option.splits)
    then have "0 \<le> fl (a + num_or (tx_shares tx) 0)"
      using a by (intro fl_nonneg) simp
    then show ?thesis using a BUY by (simp add: apply_tx_def Let_def)
  next
    case SELL
    show ?thesis
    proof (cases "fl (a + - num_or (tx_shares tx) 0) < epsilon")
      case True
      then show ?thesis using a SELL by (simp add: apply_tx_def Let_def jsub_def)
    next
      case False
      then have "0 \<le> fl (a + - num_or (tx_shares tx) 0)"
        using epsilon_pos by linarith
      then show ?thesis using a SELL False by (simp add: apply_tx_def Let_def jsub_def)
    qed
  next
    case SPLIT
    show ?thesis
    proof (cases "0 < num_or (tx_shares tx) 0")
      case True
      then have "0 \<le> fl (a * num_or (tx_shares tx) 0)"
        using a by (intro fl_nonneg) simp
      then show ?thesis using a SPLIT True by (simp add: apply_tx_def Let_def jgt_def)
    next
      case False
      then show ?thesis using a SPLIT by (simp add: apply_tx_def Let_def jgt_def)
    qed
  qed (use a in \<open>simp_all add: apply_tx_def Let_def\<close>)
qed

lemma accumulator_nonneg:
  "shares_ok m \<Longrightarrow> nonneg_fin (h_shares (accumulator prices tx symb m))"
  by (auto simp: accumulator_def new_holding_def shares_ok_def split: option.splits
           dest!: map_of_SomeD)

lemma process_tx_nonneg:
  assumes "buy_shares_ok tx" "shares_ok m"
  shows "shares_ok (process_tx prices tx m)"
proof (cases "has_symbol tx")
  case False
  then show ?thesis using assms by (simp add: process_tx_no_symbol)
next
  case True
  then obtain symb where s: "tx_symbol tx = Some symb" "symb \<noteq> []"
    by (auto simp: has_symbol_def split: option.splits)
  let ?a = "apply_tx tx (accumulator prices tx symb m)"
  have "nonneg_fin (h_shares ?a)"
    using assms by (intro apply_tx_nonneg accumulator_nonneg)
  moreover have "process_tx prices tx m = AList.update symb ?a m"
    using s by (simp add: process_tx_def)
  ultimately show ?thesis
    using assms(2) set_update_subset[of symb ?a m] by (auto simp: shares_ok_def)
qed

lemma fold_process_nonneg:
  "\<forall>t\<in>set txs. buy_shares_ok t \<Longrightarrow> shares_ok m
   \<Longrightarrow> shares_ok (fold (process_tx prices) txs m)"
  by (induction txs arbitrary: m) (simp_all add: process_tx_nonneg)

text \<open>
  C9. If every BUY of the ledger carries a non-negative \<open>shares\<close> field (or none), every
  holding that \<^verbatim>\<open>calculateHoldings\<close> returns has a finite share count that is at least 0,
  whatever the SELLs dispose of: a count that a sale brings below \<open>0.000001\<close> is set to 0.
  The SPLITs need no condition, a ratio that is not positive being ignored.
\<close>

theorem shares_never_negative:
  assumes "\<forall>t\<in>set transactions. tx_type t = BUY \<longrightarrow> (\<forall>s. tx_shares t = Some s \<longrightarrow> 0 \<le> s)"
  shows "\<forall>h\<in>set (calculateHoldings getTime transactions prices targets). nonneg_fin (h_shares h)"
proof -
  have "\<forall>t\<in>set (sortedTx getTime transactions). buy_shares_ok t"
    using assms by (auto simp: sortedTx_def buy_shares_ok_def split: option.splits)
  then have "shares_ok (replay_holdings prices (sortedTx getTime transactions))"
    unfolding replay_holdings_def by (rule fold_process_nonneg) (simp add: shares_ok_def)
  then show ?thesis
    by (auto simp: calculateHoldings_def set_object_values shares_ok_def finalize_fields)
qed

theorem shares_never_negative_witness:
  "list_all (\<lambda>h. nonneg_fin (h_shares h))
     (calculateHoldings ex_time ex_oversell Map.empty Map.empty)
   \<and> map (\<lambda>h. (h_symbol h, h_shares h, h_totalCost h))
       (calculateHoldings ex_time ex_oversell Map.empty Map.empty) = [(''X'', Fin 0, Fin 0)]"
proof -
  have h: "\<forall>t\<in>set ex_oversell. tx_type t = BUY \<longrightarrow> (\<forall>s. tx_shares t = Some s \<longrightarrow> 0 \<le> s)"
    by (simp add: ex_oversell_def mk_tx_def)
  have v: "map (\<lambda>h. (h_symbol h, h_shares h, h_totalCost h))
       (calculateHoldings ex_time ex_oversell Map.empty Map.empty) = [(''X'', Fin 0, Fin 0)]"
    by (simp add: ex_oversell_def holdings_eval)
  from shares_never_negative[OF h, of ex_time Map.empty Map.empty] v
  show ?thesis by (simp add: list_all_iff)
qed

section \<open>Properties of \<^verbatim>\<open>calculateMaxDrawdown\<close>\<close>

lemma drawdown_step_nonneg:
  assumes "not_below_zero (snd s)"
  shows "not_below_zero (snd (drawdown_step p s))"
proof -
  have *: "jgt dd m \<Longrightarrow> not_below_zero m \<Longrightarrow> not_below_zero dd" for dd m
    by (cases dd; cases m) (auto simp: jgt_def)
  show ?thesis using assms
    by (auto simp: drawdown_step_def Let_def intro: *)
qed

lemma fold_drawdown_nonneg:
  "not_below_zero (snd s) \<Longrightarrow> not_below_zero (snd (fold drawdown_step ps s))"
  by (induction ps arbitrary: s) (simp_all add: drawdown_step_nonneg)

lemma dd_unit:
  assumes "\<not> jlt v (Fin 0)" "jgt peak (Fin 0)" "\<not> jgt v peak"
    and "jgt (jdiv (jsub peak v) peak) m" "unit_fraction m"
  shows "unit_fraction (jdiv (jsub peak v) peak)"
proof (cases peak)
  case (Fin p)
  then have p: "0 < p" using assms(2) by (simp add: jgt_def)
  show ?thesis
  proof (cases v)
    case (Fin x)
    then have x: "0 \<le> x" "x \<le> p" using assms(1,3) \<open>peak = Fin p\<close> by (simp_all add: jgt_def)
    have "0 \<le> fl (fl (p - x) / p) \<and> fl (fl (p - x) / p) \<le> 1"
      using fl_quotient_le_one[of p "p - x"] p x by simp
    then show ?thesis using Fin \<open>peak = Fin p\<close> p by (simp add: jsub_def)
  qed (use assms Fin in \<open>cases m; auto simp: jgt_def jsub_def\<close>)+
qed (use assms in \<open>cases v; cases m; auto simp: jgt_def jsub_def\<close>)+

lemma dd_unit_self:
  assumes "jgt v (Fin 0)" "jgt (jdiv (jsub v v) v) m" "unit_fraction m"
  shows "unit_fraction (jdiv (jsub v v) v)"
  using assms
  by (cases v; cases m) (auto simp: jgt_def jsub_def split: if_splits)

lemma drawdown_step_unit:
  assumes "unit_fraction (snd s)" "\<not> jlt (p_value p) (Fin 0)"
  shows "unit_fraction (snd (drawdown_step p s))"
  using assms
  by (auto simp: drawdown_step_def Let_def intro: dd_unit dd_unit_self)

lemma fold_drawdown_unit:
  "unit_fraction (snd s) \<Longrightarrow> \<forall>p\<in>set ps. \<not> jlt (p_value p) (Fin 0)
   \<Longrightarrow> unit_fraction (snd (fold drawdown_step ps s))"
  by (induction ps arbitrary: s) (simp_all add: drawdown_step_unit)

lemma percent_of_unit: "unit_fraction m \<Longrightarrow> in_percent_range (jmul m (Fin 100))"
proof (cases m)
  case (Fin d)
  assume "unit_fraction m"
  then have d: "0 \<le> d" "d \<le> 1" using Fin by simp_all
  have "0 \<le> fl (d * 100)" using d by (intro fl_nonneg) simp
  moreover have "fl (d * 100) \<le> fl 100" using d by (intro fl_mono_nonneg) simp_all
  ultimately show ?thesis using Fin by simp
qed simp_all

lemma percent_nonneg: "not_below_zero m \<Longrightarrow> not_below_zero (jmul m (Fin 100))"
proof (cases m)
  case (Fin d)
  assume "not_below_zero m"
  then have "0 \<le> fl (d * 100)" using Fin by (intro fl_nonneg) simp
  then show ?thesis using Fin by simp
qed simp_all

text \<open>
  C2, as claimed: the output lies between 0 and 100 for every list of valuation points.
  It does not for a timeline whose value falls below zero after a positive peak: from 100
  to \<open>-50\<close> the drawdown is 150 percent.
\<close>

theorem calculateMaxDrawdown_above_100:
  "calculateMaxDrawdown ex_chart_overdrawn = Fin 150
   \<and> \<not> in_percent_range (calculateMaxDrawdown ex_chart_overdrawn)"
  by (simp add: ex_chart_overdrawn_def calculateMaxDrawdown_def drawdown_step_def point_def
        jgt_def jsub_def Let_def fl_scale_up[where n = 52] round_even_def)

text \<open>
  C2, amended: the output is never below 0, and it lies between 0 and 100 for every list of
  valuation points none of whose values is below 0.
\<close>

theorem calculateMaxDrawdown_range:
  "not_below_zero (calculateMaxDrawdown chartData) \<and>
   ((\<forall>p\<in>set chartData. \<not> jlt (p_value p) (Fin 0))
      \<longrightarrow> in_percent_range (calculateMaxDrawdown chartData))"
  unfolding calculateMaxDrawdown_def
  by (auto intro!: percent_of_unit percent_nonneg fold_drawdown_unit fold_drawdown_nonneg)

theorem calculateMaxDrawdown_range_witness:
  "in_percent_range (calculateMaxDrawdown ex_chart)
   \<and> calculateMaxDrawdown ex_chart = Fin 40"
proof -
  have h: "\<forall>p\<in>set ex_chart. \<not> jlt (p_value p) (Fin 0)"
    by (simp add: ex_chart_def point_def)
  have v: "calculateMaxDrawdown ex_chart = Fin 40"
    by (simp add: ex_chart_def calculateMaxDrawdown_def drawdown_step_def point_def
          jgt_def jsub_def Let_def fl_scale_up[where n = 54] fl_scale_up[where n = 55]
          fl_scale_up[where n = 47] round_even_def)
  from calculateMaxDrawdown_range[of ex_chart] h v show ?thesis by blast
qed

section \<open>Properties of \<^verbatim>\<open>calculatePortfolioHistory\<close>\<close>

lemmas history_eval =
  calculatePortfolioHistory_def sortedTx_def history_step_def history_init_def trade_step_def
  stockValue_def currentStockValue_def price_or_def num_or_def object_values_def
  object_entries_def is_array_index_def is_digit_def jgt_def jsub_def Let_def mk_tx_def
  ex_time_def point_def

lemma history_step_points:
  "hs_points (history_step tx st) = hs_points st @ [point_of tx (history_step tx st)]"
  by (simp add: history_step_def point_of_def Let_def)

lemma history_step_invested:
  "hs_invested (history_step tx st) =
     (if tx_type tx = DEPOSIT then jadd (hs_invested st) (Fin (num_or (tx_price tx) 0))
      else if tx_type tx = WITHDRAW then jsub (hs_invested st) (Fin (num_or (tx_price tx) 0))
      else hs_invested st)"
  by (simp add: history_step_def Let_def)

lemma length_states [simp]: "length (states st txs) = length txs"
  by (induction txs arbitrary: st) simp_all

lemma states_Nil [simp]: "states st txs = [] \<longleftrightarrow> txs = []"
  by (cases txs) simp_all

lemma fold_history_points:
  "hs_points (fold history_step txs st) = hs_points st @ map2 point_of txs (states st txs)"
  by (induction txs arbitrary: st) (simp_all add: history_step_points)

lemma fold_history_last:
  "fold history_step txs st = (if txs = [] then st else last (states st txs))"
  by (induction txs arbitrary: st) simp_all

lemma states_nth:
  "i < length txs \<Longrightarrow>
   states st txs ! i = history_step (txs ! i) (if i = 0 then st else states st txs ! (i - 1))"
proof (induction txs arbitrary: st i)
  case Nil
  then show ?case by simp
next
  case (Cons t ts)
  show ?case
  proof (cases i)
    case 0
    then show ?thesis by simp
  next
    case (Suc j)
    with Cons.prems have "j < length ts" by simp
    from Cons.IH[OF this, of "history_step t st"] Suc show ?thesis
      by (cases j) simp_all
  qed
qed

lemma length_sortedTx [simp]: "length (sortedTx getTime txs) = length txs"
  by (simp add: sortedTx_def)

lemma sorted_sortedTx: "sorted (map (\<lambda>t. getTime (tx_date t)) (sortedTx getTime txs))"
  by (simp add: sortedTx_def)

text \<open>The output for a ledger that is not empty: the emitted points, then the trailing one.\<close>

lemma history_nonempty:
  assumes "transactions \<noteq> []"
  shows "calculatePortfolioHistory getTime transactions currentPrices =
     map2 point_of (sortedTx getTime transactions)
       (states history_init (sortedTx getTime transactions))
     @ [\<lparr> p_date = ''Now'',
          p_invested = hs_invested (fold history_step (sortedTx getTime transactions) history_init),
          p_value = jadd (hs_cash (fold history_step (sortedTx getTime transactions) history_init))
                      (currentStockValue currentPrices
                         (hs_holdings
                            (fold history_step (sortedTx getTime transactions) history_init))) \<rparr>]"
  using assms
  by (simp add: calculatePortfolioHistory_def Let_def fold_history_points history_init_def)

lemma history_nth:
  assumes "i < length transactions"
  shows "calculatePortfolioHistory getTime transactions currentPrices ! i
         = point_of (sortedTx getTime transactions ! i)
             (states history_init (sortedTx getTime transactions) ! i)"
proof -
  from assms have ne: "transactions \<noteq> []" by auto
  show ?thesis using assms
    by (simp add: history_nonempty[OF ne] nth_append)
qed

lemma history_nth_now:
  assumes "transactions \<noteq> []"
  shows "calculatePortfolioHistory getTime transactions currentPrices ! length transactions
         = \<lparr> p_date = ''Now'',
             p_invested = hs_invested (fold history_step (sortedTx getTime transactions) history_init),
             p_value = jadd (hs_cash (fold history_step (sortedTx getTime transactions) history_init))
                      (currentStockValue currentPrices
                         (hs_holdings
                            (fold history_step (sortedTx getTime transactions) history_init))) \<rparr>"
proof -
  have "length (map2 point_of (sortedTx getTime transactions)
                  (states history_init (sortedTx getTime transactions))) = length transactions"
    by simp
  then show ?thesis
    unfolding history_nonempty[OF assms] by (metis nth_append_length)
qed

lemma history_nth_last_tx:
  assumes "transactions \<noteq> []"
  shows "calculatePortfolioHistory getTime transactions currentPrices ! (length transactions - 1)
         = point_of (last (sortedTx getTime transactions))
             (fold history_step (sortedTx getTime transactions) history_init)"
proof -
  let ?s = "sortedTx getTime transactions"
  have lt: "length transactions - 1 < length transactions" using assms by simp
  have s_ne: "?s \<noteq> []" using assms by (metis length_sortedTx length_0_conv)
  have "?s ! (length transactions - 1) = last ?s"
    using s_ne by (simp add: last_conv_nth)
  moreover have "states history_init ?s ! (length transactions - 1)
                 = fold history_step ?s history_init"
    using s_ne by (simp add: fold_history_last last_conv_nth)
  ultimately show ?thesis by (simp only: history_nth[OF lt])
qed

subsection \<open>Invested capital moves on deposits and withdrawals only\<close>

text \<open>
  C5. Let \<open>tx\<close> be the \<open>i\<close>-th transaction in date order. The \<open>i\<close>-th point of the
  timeline carries the date of \<open>tx\<close>, and its \<open>invested\<close> is that of the point before it
  (0 for the first point) plus the amount when \<open>tx\<close> is a DEPOSIT, minus the amount when
  \<open>tx\<close> is a WITHDRAW, and unchanged when \<open>tx\<close> is a BUY, SELL, DIVIDEND or SPLIT. The
  trailing point has the \<open>invested\<close> of the last transaction's point.
\<close>

theorem invested_changes_only_on_funding:
  assumes "i < length transactions"
  shows "let out = calculatePortfolioHistory getTime transactions currentPrices;
             tx = sortedTx getTime transactions ! i;
             amount = Fin (num_or (tx_price tx) 0);
             previous = (if i = 0 then Fin 0 else p_invested (out ! (i - 1)));
             current = p_invested (out ! i)
         in p_date (out ! i) = tx_date tx
            \<and> (tx_type tx = DEPOSIT \<longrightarrow> current = jadd previous amount)
            \<and> (tx_type tx = WITHDRAW \<longrightarrow> current = jsub previous amount)
            \<and> (tx_type tx \<in> {BUY, SELL, DIVIDEND, SPLIT} \<longrightarrow> current = previous)
            \<and> p_invested (out ! length transactions)
                = p_invested (out ! (length transactions - 1))"
proof -
  let ?s = "sortedTx getTime transactions"
  let ?st = "states history_init ?s"
  have i: "i < length ?s" using assms by simp
  have ne: "transactions \<noteq> []" using assms by auto
  have prev: "(if i = 0 then Fin 0
               else p_invested (calculatePortfolioHistory getTime transactions currentPrices ! (i - 1)))
        = hs_invested (if i = 0 then history_init else ?st ! (i - 1))"
    using assms by (auto simp: history_nth point_of_def history_init_def)
  have trail: "p_invested (calculatePortfolioHistory getTime transactions currentPrices
                             ! length transactions)
        = p_invested (calculatePortfolioHistory getTime transactions currentPrices
                             ! (length transactions - 1))"
    unfolding history_nth_now[OF ne] history_nth_last_tx[OF ne] by (simp add: point_of_def)
  show ?thesis
    using assms trail
    by (simp add: Let_def history_nth prev states_nth[OF i] history_step_invested point_of_def)
qed

lemma ex_history_value:
  "calculatePortfolioHistory ex_time ex_history ex_prices =
     [point ''2024-01-05'' 1000 1000, point ''2024-01-10'' 1000 1000,
      point ''2024-02-01'' 800 800, point ''Now'' 800 900]"
  by (simp add: ex_history_def ex_prices_def history_eval)

lemma ex_history_sorted:
  "sortedTx ex_time ex_history =
     [mk_tx ''2024-01-05'' DEPOSIT None None (Some 1000) None,
      mk_tx ''2024-01-10'' BUY (Some ''X'') (Some 10) (Some 50) None,
      mk_tx ''2024-02-01'' WITHDRAW None None (Some 200) None]"
  by (simp add: ex_history_def sortedTx_def ex_time_def is_digit_def mk_tx_def)

theorem invested_changes_only_on_funding_witness:
  "p_invested (calculatePortfolioHistory ex_time ex_history ex_prices ! 1)
     = p_invested (calculatePortfolioHistory ex_time ex_history ex_prices ! 0)
   \<and> p_invested (calculatePortfolioHistory ex_time ex_history ex_prices ! 2)
     = jsub (p_invested (calculatePortfolioHistory ex_time ex_history ex_prices ! 1)) (Fin 200)
   \<and> map p_invested (calculatePortfolioHistory ex_time ex_history ex_prices)
     = [Fin 1000, Fin 1000, Fin 800, Fin 800]"
proof -
  have l1: "1 < length ex_history" and l2: "2 < length ex_history"
    by (simp_all add: ex_history_def)
  have a: "p_invested (calculatePortfolioHistory ex_time ex_history ex_prices ! 1)
     = p_invested (calculatePortfolioHistory ex_time ex_history ex_prices ! 0)"
    using invested_changes_only_on_funding[OF l1, of ex_time ex_prices]
    by (simp add: Let_def ex_history_sorted mk_tx_def)
  have b: "p_invested (calculatePortfolioHistory ex_time ex_history ex_prices ! 2)
     = jsub (p_invested (calculatePortfolioHistory ex_time ex_history ex_prices ! 1)) (Fin 200)"
    using invested_changes_only_on_funding[OF l2, of ex_time ex_prices]
    by (simp add: Let_def ex_history_sorted mk_tx_def num_or_def)
  have v: "map p_invested (calculatePortfolioHistory ex_time ex_history ex_prices)
     = [Fin 1000, Fin 1000, Fin 800, Fin 800]"
    by (simp add: ex_history_value point_def)
  from a b v show ?thesis by blast
qed

subsection \<open>Shape of the timeline\<close>

lemma map2_point_of_dates:
  "length ss = length txs \<Longrightarrow> map p_date (map2 point_of txs ss) = map tx_date txs"
  by (induction txs ss rule: list_induct2') (simp_all add: point_of_def)

lemma currentStockValue_fallback:
  assumes "\<forall>k. currentPrices k = None"
  shows "currentStockValue currentPrices holdings = stockValue holdings"
  using assms
  by (simp add: currentStockValue_def stockValue_def object_values_def fold_map comp_def
        price_or_def)

lemma currentStockValue_live:
  assumes "\<forall>k. currentPrices k \<noteq> Some 0"
  shows "currentStockValue currentPrices holdings
         = fold (\<lambda>kv acc. jadd acc
                   (jmul (pos_shares (snd kv))
                      (case currentPrices (fst kv) of
                         None \<Rightarrow> pos_lastPrice (snd kv)
                       | Some v \<Rightarrow> Fin v)))
             (object_entries holdings) (Fin 0)"
proof -
  have "price_or (currentPrices k) d = (case currentPrices k of None \<Rightarrow> d | Some v \<Rightarrow> Fin v)"
    for k d
    using assms[rule_format, of k] by (auto simp: price_or_def split: option.splits)
  then show ?thesis by (simp add: currentStockValue_def)
qed

text \<open>
  C6, as claimed: the output always has one point per transaction and one trailing point,
  whose value is computed from the supplied current prices. For the empty ledger the
  output has no point at all. And a supplied price of 0 is not used: with 300 of cash and
  10 shares last traded at 50, a current price of 0 gives the trailing point the value
  \<open>300 + 10 \<times> 50\<close>, not \<open>300 + 10 \<times> 0\<close>.
\<close>

theorem history_shape_as_claimed_fails:
  "calculatePortfolioHistory ex_time [] ex_prices = []
   \<and> length (calculatePortfolioHistory ex_time [] ex_prices) \<noteq> length ([] :: Transaction list) + 1
   \<and> ex_price_zero ''X'' = Some 0
   \<and> calculatePortfolioHistory ex_time ex_history ex_price_zero
       = [point ''2024-01-05'' 1000 1000, point ''2024-01-10'' 1000 1000,
          point ''2024-02-01'' 800 800, point ''Now'' 800 800]
   \<and> jadd (Fin 300) (jmul (Fin 10) (Fin 0)) \<noteq> Fin 800"
  by (simp add: ex_history_def ex_price_zero_def history_eval)

text \<open>
  C6, amended: for the empty ledger the output is empty. For every other ledger of \<open>n\<close>
  transactions the output has \<open>n + 1\<close> points: the first \<open>n\<close> carry the dates of the
  transactions in date order, and the last is the synthetic point dated \<^verbatim>\<open>'Now'\<close>. When
  no supplied current price is 0, the value of that point is the cash plus, for each
  symbol, its shares times the supplied current price, or times its last transaction price
  when none is supplied. With no current price supplied at all, it is the value of the last
  transaction's point.
\<close>

theorem history_shape:
  "calculatePortfolioHistory getTime [] currentPrices = []
   \<and> (transactions \<noteq> [] \<longrightarrow>
        (let out = calculatePortfolioHistory getTime transactions currentPrices;
             n = length transactions;
             st = fold history_step (sortedTx getTime transactions) history_init
         in length out = n + 1
            \<and> map p_date (take n out) = map tx_date (sortedTx getTime transactions)
            \<and> sorted (map (\<lambda>p. getTime (p_date p)) (take n out))
            \<and> p_date (out ! n) = ''Now''
            \<and> ((\<forall>k. currentPrices k \<noteq> Some 0) \<longrightarrow>
                 p_value (out ! n) =
                   jadd (hs_cash st)
                     (fold (\<lambda>kv acc. jadd acc
                              (jmul (pos_shares (snd kv))
                                 (case currentPrices (fst kv) of
                                    None \<Rightarrow> pos_lastPrice (snd kv)
                                  | Some v \<Rightarrow> Fin v)))
                        (object_entries (hs_holdings st)) (Fin 0)))
            \<and> ((\<forall>k. currentPrices k = None)
                 \<longrightarrow> p_value (out ! n) = p_value (out ! (n - 1)))))"
proof -
  have e: "calculatePortfolioHistory getTime [] currentPrices = []"
    by (simp add: calculatePortfolioHistory_def)
  have "?thesis" if ne: "transactions \<noteq> []"
  proof -
    let ?s = "sortedTx getTime transactions"
    let ?st = "fold history_step ?s history_init"
    let ?pts = "map2 point_of ?s (states history_init ?s)"
    let ?now = "\<lparr> p_date = ''Now'', p_invested = hs_invested ?st,
          p_value = jadd (hs_cash ?st) (currentStockValue currentPrices (hs_holdings ?st)) \<rparr>"
    have out: "calculatePortfolioHistory getTime transactions currentPrices = ?pts @ [?now]"
      by (rule history_nonempty[OF ne])
    have tk: "take (length transactions) (?pts @ [?now]) = ?pts" by simp
    have dates: "map p_date ?pts = map tx_date ?s"
      by (rule map2_point_of_dates) simp
    have "map (\<lambda>p. getTime (p_date p)) ?pts = map getTime (map p_date ?pts)"
      by simp
    also have "\<dots> = map (\<lambda>t. getTime (tx_date t)) ?s"
      by (simp only: dates) simp
    finally have srt: "sorted (map (\<lambda>p. getTime (p_date p)) ?pts)"
      by (simp only: sorted_sortedTx)
    have nth_now: "(?pts @ [?now]) ! length transactions = ?now"
      using history_nth_now[OF ne, of getTime currentPrices] by (simp only: out)
    have lastpt: "(?pts @ [?now]) ! (length transactions - 1) = point_of (last ?s) ?st"
      using history_nth_last_tx[OF ne, of getTime currentPrices] by (simp only: out)
    have fb: "p_value ?now = p_value (point_of (last ?s) ?st)"
      if "\<forall>k. currentPrices k = None"
      using currentStockValue_fallback[OF that] by (simp add: point_of_def)
    have live: "p_value ?now =
                   jadd (hs_cash ?st)
                     (fold (\<lambda>kv acc. jadd acc
                              (jmul (pos_shares (snd kv))
                                 (case currentPrices (fst kv) of
                                    None \<Rightarrow> pos_lastPrice (snd kv)
                                  | Some v \<Rightarrow> Fin v)))
                        (object_entries (hs_holdings ?st)) (Fin 0))"
      if "\<forall>k. currentPrices k \<noteq> Some 0"
      using currentStockValue_live[OF that] by simp
    have len: "length (?pts @ [?now]) = length transactions + 1" by simp
    show ?thesis
      unfolding Let_def out tk nth_now lastpt
      using e dates srt fb live len by (simp add: calculatePortfolioHistory_def)
  qed
  with e show ?thesis by blast
qed

theorem history_shape_witness:
  "length (calculatePortfolioHistory ex_time ex_history ex_prices) = length ex_history + 1
   \<and> map p_date (take (length ex_history) (calculatePortfolioHistory ex_time ex_history ex_prices))
     = [''2024-01-05'', ''2024-01-10'', ''2024-02-01'']
   \<and> p_date (calculatePortfolioHistory ex_time ex_history ex_prices ! length ex_history) = ''Now''
   \<and> p_value (calculatePortfolioHistory ex_time ex_history ex_prices ! length ex_history)
     = Fin 900"
proof -
  have ne: "ex_history \<noteq> []" by (simp add: ex_history_def)
  have np: "\<forall>k. ex_prices k \<noteq> Some 0" by (simp add: ex_prices_def)
  have st: "fold history_step (sortedTx ex_time ex_history) history_init
     = \<lparr> hs_invested = Fin 800, hs_cash = Fin 300,
         hs_holdings = [(''X'', \<lparr> pos_shares = Fin 10, pos_lastPrice = Fin 50 \<rparr>)],
         hs_points = [point ''2024-01-05'' 1000 1000, point ''2024-01-10'' 1000 1000,
                      point ''2024-02-01'' 800 800] \<rparr>"
    by (simp add: ex_history_def history_eval)
  from history_shape[of ex_time ex_prices ex_history] ne np
  have "length (calculatePortfolioHistory ex_time ex_history ex_prices) = length ex_history + 1"
    and "map p_date (take (length ex_history)
                       (calculatePortfolioHistory ex_time ex_history ex_prices))
         = map tx_date (sortedTx ex_time ex_history)"
    and "p_date (calculatePortfolioHistory ex_time ex_history ex_prices ! length ex_history)
         = ''Now''"
    and "p_value (calculatePortfolioHistory ex_time ex_history ex_prices ! length ex_history)
         = jadd (hs_cash (fold history_step (sortedTx ex_time ex_history) history_init))
             (fold (\<lambda>kv acc. jadd acc
                      (jmul (pos_shares (snd kv))
                         (case ex_prices (fst kv) of
                            None \<Rightarrow> pos_lastPrice (snd kv)
                          | Some v \<Rightarrow> Fin v)))
                (object_entries
                   (hs_holdings (fold history_step (sortedTx ex_time ex_history) history_init)))
                (Fin 0))"
    by (simp_all add: Let_def)
  then show ?thesis
    unfolding st
    by (simp add: ex_history_sorted mk_tx_def ex_prices_def object_entries_def
          is_array_index_def is_digit_def)
qed

subsection \<open>The two computations of net contributed capital\<close>

lemma fold_history_invested:
  "hs_invested (fold history_step txs st) = fold net_step txs (hs_invested st)"
  by (induction txs arbitrary: st) (simp_all add: history_step_invested net_step_def)

lemma fold_funding_net:
  "fs_netFundingUSD
     (fold funding_step (filter (\<lambda>t. tx_type t = DEPOSIT \<or> tx_type t = WITHDRAW) txs) a)
   = fold net_step txs (fs_netFundingUSD a)"
  by (induction txs arbitrary: a) (auto simp: funding_step_def net_step_def Let_def)

lemma netFundingUSD_fold:
  "netFundingUSD (calculateFundingStats transactions) = fold net_step transactions (Fin 0)"
  by (simp add: calculateFundingStats_def Let_def fold_funding_net)

text \<open>
  C10, as claimed: on every ledger the \<open>invested\<close> of the trailing point equals
  \<^verbatim>\<open>netFundingUSD\<close>. The timeline adds the amounts in date order and the funding
  statistics add them in ledger order, and the rounded sums differ: for deposits of 0.3,
  0.2 and 0.1 listed newest first the first is \<open>0.6000000000000001\<close> and the second \<open>0.6\<close>.
\<close>

theorem invested_differs_from_net_funding:
  "p_invested (last (calculatePortfolioHistory ex_time ex_deposits no_prices))
     = Fin (1351079888211149 / 2 ^ 51)
   \<and> netFundingUSD (calculateFundingStats ex_deposits) = Fin (5404319552844595 / 2 ^ 53)
   \<and> p_invested (last (calculatePortfolioHistory ex_time ex_deposits no_prices))
     \<noteq> netFundingUSD (calculateFundingStats ex_deposits)"
  by (simp add: ex_deposits_def no_prices_def tenths_value history_eval
        calculateFundingStats_def funding_step_def
        fl_scale_up[where n = 53] fl_scale_up[where n = 54] fl_scale_up[where n = 55]
        fl_scale_up[where n = 56] round_even_def)

text \<open>
  C10, amended: for every ledger listed in date order, what \<^verbatim>\<open>calculatePortfolioHistory\<close>
  emits after the points of the transactions, which is the one \<^verbatim>\<open>'Now'\<close> point unless the
  ledger is empty, has as \<open>invested\<close> the \<^verbatim>\<open>netFundingUSD\<close> of \<^verbatim>\<open>calculateFundingStats\<close> on
  the same ledger. On every ledger \<^verbatim>\<open>netFundingUSD\<close> is the running sum, in ledger order,
  that adds the amount of each DEPOSIT and subtracts the amount of each WITHDRAW, the
  amount being the \<open>price\<close> field and 0 when it is missing.
\<close>

theorem invested_now_is_net_funding:
  assumes "sorted (map (\<lambda>t. getTime (tx_date t)) transactions)"
  shows "list_all (\<lambda>p. p_date p = ''Now''
                       \<and> p_invested p = netFundingUSD (calculateFundingStats transactions))
           (drop (length transactions)
              (calculatePortfolioHistory getTime transactions currentPrices))
       \<and> length (drop (length transactions)
                  (calculatePortfolioHistory getTime transactions currentPrices))
           = (if transactions = [] then 0 else 1)
       \<and> netFundingUSD (calculateFundingStats transactions)
           = fold net_step transactions (Fin 0)"
proof -
  have s: "sortedTx getTime transactions = transactions"
    unfolding sortedTx_def by (rule sort_key_id_if_sorted[OF assms])
  have n: "netFundingUSD (calculateFundingStats transactions)
           = fold net_step transactions (Fin 0)"
    by (rule netFundingUSD_fold)
  show ?thesis
  proof (cases "transactions = []")
    case True
    with n show ?thesis by (simp add: calculatePortfolioHistory_def)
  next
    case False
    have "length (map2 point_of transactions (states history_init transactions))
          = length transactions"
      by simp
    then have "drop (length transactions)
            (calculatePortfolioHistory getTime transactions currentPrices)
          = [\<lparr> p_date = ''Now'',
               p_invested = hs_invested (fold history_step transactions history_init),
               p_value = jadd (hs_cash (fold history_step transactions history_init))
                           (currentStockValue currentPrices
                              (hs_holdings (fold history_step transactions history_init))) \<rparr>]"
      unfolding history_nonempty[OF False] s by simp
    then show ?thesis
      using False by (simp add: n fold_history_invested history_init_def)
  qed
qed

lemma ex_deposits_sorted:
  "sortedTx ex_time ex_deposits =
     [mk_tx ''2024-01-01'' DEPOSIT None None (Some one_tenth) None,
      mk_tx ''2024-02-01'' DEPOSIT None None (Some two_tenths) None,
      mk_tx ''2024-03-01'' DEPOSIT None None (Some three_tenths) None]"
  by (simp add: ex_deposits_def sortedTx_def ex_time_def is_digit_def mk_tx_def)

theorem invested_now_is_net_funding_witness:
  "map p_invested
     (drop (length (sortedTx ex_time ex_deposits))
        (calculatePortfolioHistory ex_time (sortedTx ex_time ex_deposits) no_prices))
     = [Fin (1351079888211149 / 2 ^ 51)]
   \<and> netFundingUSD (calculateFundingStats (sortedTx ex_time ex_deposits))
     = Fin (1351079888211149 / 2 ^ 51)"
proof -
  have srt: "sorted (map (\<lambda>t. ex_time (tx_date t)) (sortedTx ex_time ex_deposits))"
    by (rule sorted_sortedTx)
  have v: "netFundingUSD (calculateFundingStats (sortedTx ex_time ex_deposits))
           = Fin (1351079888211149 / 2 ^ 51)"
    by (simp add: ex_deposits_sorted calculateFundingStats_def funding_step_def mk_tx_def
          num_or_def Let_def tenths_value
          fl_scale_up[where n = 53] fl_scale_up[where n = 54] fl_scale_up[where n = 55]
          fl_scale_up[where n = 56] round_even_def)
  have ne: "sortedTx ex_time ex_deposits \<noteq> []"
    by (simp add: ex_deposits_sorted)
  from invested_now_is_net_funding[OF srt, of no_prices]
  have l: "list_all (\<lambda>p. p_date p = ''Now''
              \<and> p_invested p = netFundingUSD (calculateFundingStats (sortedTx ex_time ex_deposits)))
          (drop (length (sortedTx ex_time ex_deposits))
             (calculatePortfolioHistory ex_time (sortedTx ex_time ex_deposits) no_prices))"
    and "length (drop (length (sortedTx ex_time ex_deposits))
             (calculatePortfolioHistory ex_time (sortedTx ex_time ex_deposits) no_prices))
         = (if sortedTx ex_time ex_deposits = [] then 0 else 1)"
    by blast+
  with ne have "length (drop (length (sortedTx ex_time ex_deposits))
             (calculatePortfolioHistory ex_time (sortedTx ex_time ex_deposits) no_prices)) = 1"
    by simp
  then obtain p where
    "drop (length (sortedTx ex_time ex_deposits))
       (calculatePortfolioHistory ex_time (sortedTx ex_time ex_deposits) no_prices) = [p]"
    by (metis One_nat_def length_0_conv length_Suc_conv)
  with l v show ?thesis by simp
qed

section \<open>An overdrawn ledger\<close>

text \<open>
  The timeline of a ledger that withdraws more than it deposited falls below zero, and its
  maximum drawdown is above 100 percent.
\<close>

lemma drawdown_of_overdrawn_ledger:
  "calculatePortfolioHistory ex_time
     [mk_tx ''2024-01-05'' DEPOSIT None None (Some 100) None,
      mk_tx ''2024-02-01'' WITHDRAW None None (Some 150) None] ex_prices
   = [point ''2024-01-05'' 100 100, point ''2024-02-01'' (- 50) (- 50), point ''Now'' (- 50) (- 50)]
   \<and> calculateMaxDrawdown
       [point ''2024-01-05'' 100 100, point ''2024-02-01'' (- 50) (- 50), point ''Now'' (- 50) (- 50)]
     = Fin 150"
  by (simp add: ex_prices_def history_eval calculateMaxDrawdown_def drawdown_step_def
        fl_scale_up[where n = 52] round_even_def)

section \<open>Properties of \<^verbatim>\<open>calculateMonthlyReturns\<close>\<close>

lemma show_nat_numeral:
  "show_nat (numeral k) =
     (if numeral k < (10::nat) then [digit_char (numeral k)]
      else show_nat (numeral k div 10) @ [digit_char (numeral k mod 10)])"
  by (rule show_nat.simps)

lemma show_nat_digit: "n < 10 \<Longrightarrow> show_nat n = [digit_char n]"
  by (subst show_nat.simps) simp

lemmas returns_start_eval =
  calculateMonthlyReturns_def returns_of_sorted_def getDate_def first_of_month_def
  getFullYear_def getMonth_def Let_def point_def ex_parse_def ex_month_utc_def
  ex_month_west_def

lemmas returns_loop_eval =
  month_loop.simps first_of_month_def getFullYear_def getMonth_def Let_def
  ex_month_utc_def ex_month_west_def

lemmas returns_label_eval =
  getYearMonth_def getFullYear_def getMonth_def show_int_def padStart2_def
  show_nat_numeral show_nat_digit digit_char_def

lemmas returns_value_eval =
  month_return_def jsub_def jneq_def Let_def

text \<open>The same timeline on the host whose clock is UTC: one entry, for March.\<close>

lemma monthly_returns_utc:
  "calculateMonthlyReturns 400 ex_parse ex_month_utc ex_march
   = Some [\<lparr> r_yearMonth = ''2024-03'', r_value = Fin 20, r_pnl = Fin 100 \<rparr>]"
  apply (simp add: ex_march_def returns_start_eval)
  apply (simp add: returns_loop_eval)
  apply (simp add: returns_label_eval)
  apply (simp add: returns_value_eval fl_scale_up[where n = 55] fl_scale_up[where n = 48]
           round_even_def)
  done

text \<open>
  C7. The claim: one snapshot per calendar month from the first date of the timeline to
  its last, each holding the last known value and invested capital, and from them the
  Modified-Dietz return of each month. Take the timeline with value 1000 on 2024-03-01
  and 1100 on 2024-03-15, 1000 invested: both dates lie in March 2024, so there is one
  snapshot, and one entry, for \<^verbatim>\<open>2024-03\<close>. The program passes the date strings through
  \<^verbatim>\<open>new Date\<close>, which reads them as midnight UTC, and takes the month of the result in
  local time. On a host five hours behind UTC the first point falls on the evening of
  February 29: the program builds a snapshot for February as well, returns an entry for
  \<^verbatim>\<open>2024-02\<close>, in which the timeline has no date, and reports 10 percent for March, where
  the host on UTC reports 20 percent.
\<close>

theorem monthly_returns_west_of_utc:
  "calculateMonthlyReturns 400 ex_parse ex_month_west ex_march
     = Some [\<lparr> r_yearMonth = ''2024-02'', r_value = Fin 0, r_pnl = Fin 0 \<rparr>,
             \<lparr> r_yearMonth = ''2024-03'', r_value = Fin 10, r_pnl = Fin 100 \<rparr>]
   \<and> calculateMonthlyReturns 400 ex_parse ex_month_utc ex_march
     = Some [\<lparr> r_yearMonth = ''2024-03'', r_value = Fin 20, r_pnl = Fin 100 \<rparr>]
   \<and> calculateMonthlyReturns 400 ex_parse ex_month_west ex_march
     \<noteq> calculateMonthlyReturns 400 ex_parse ex_month_utc ex_march"
  apply (simp add: monthly_returns_utc)
  apply (simp add: ex_march_def returns_start_eval)
  apply (simp add: returns_loop_eval)
  apply (simp add: returns_label_eval)
  apply (simp add: returns_value_eval fl_scale_up[where n = 56] fl_scale_up[where n = 49]
           round_even_def)
  done

text \<open>
  A date in the year 50: \<^verbatim>\<open>new Date(50, 5, 1)\<close> is the first of June 1950, and the month
  is labelled so.
\<close>

lemma monthly_returns_year_50:
  "calculateMonthlyReturns 400 ex_parse ex_month_utc [point ''0050-06-15'' 1000 1000]
   = Some [\<lparr> r_yearMonth = ''1950-06'', r_value = Fin 0, r_pnl = Fin 0 \<rparr>]"
  apply (simp add: returns_start_eval)
  apply (simp add: returns_loop_eval)
  apply (simp add: returns_label_eval)
  apply (simp add: returns_value_eval)
  done

text \<open>A single point whose date does not parse: no month, no entry.\<close>

lemma monthly_returns_invalid_date:
  "calculateMonthlyReturns 400 ex_parse ex_month_utc [point ''tomorrow'' 1000 1000] = Some []"
  by (simp add: returns_start_eval)

end
